theory Spec2Isabelle
  imports Complex_Main
begin

section \<open>The volatile tier: \<open>this.memoryCache\<close>, a JavaScript \<open>Map\<close>\<close>

text \<open>
  A JavaScript \<open>Map\<close> iterates its keys in insertion order, holds each key once, and
  \<open>set\<close> on a key that is already present replaces the value in place without moving
  the key.  It is modelled as an association list, oldest-inserted key first.
\<close>

type_synonym ('k, 'v) js_map = "('k \<times> 'v) list"

fun Map_set :: "'k \<Rightarrow> 'v \<Rightarrow> ('k, 'v) js_map \<Rightarrow> ('k, 'v) js_map" where
  "Map_set k v [] = [(k, v)]"
| "Map_set k v ((k', v') # m) =
     (if k' = k then (k, v) # m else (k', v') # Map_set k v m)"

definition Map_has :: "'k \<Rightarrow> ('k, 'v) js_map \<Rightarrow> bool" where
  "Map_has k m = (map_of m k \<noteq> None)"

definition Map_get :: "'k \<Rightarrow> ('k, 'v) js_map \<Rightarrow> 'v option" where
  "Map_get k m = map_of m k"

definition Map_delete :: "'k \<Rightarrow> ('k, 'v) js_map \<Rightarrow> ('k, 'v) js_map" where
  "Map_delete k m = filter (\<lambda>p. fst p \<noteq> k) m"

definition Map_size :: "('k, 'v) js_map \<Rightarrow> nat" where
  "Map_size m = length m"

text \<open>\<open>m.keys().next().value\<close>: the first key in iteration order, \<open>undefined\<close> (None)
  on an empty map.\<close>

definition Map_first_key :: "('k, 'v) js_map \<Rightarrow> 'k option" where
  "Map_first_key m = (case m of [] \<Rightarrow> None | (k, _) # _ \<Rightarrow> Some k)"

text \<open>
  An entry of the memory cache, \<open>{captions, captionData, timestamp}\<close>.  The entry holds
  whatever the two arguments of \<open>addToMemoryCache\<close> are: in JavaScript these are object
  references, so the types are left open (\<open>'c\<close>, \<open>'d\<close>) and instantiated with
  addresses where aliasing matters and with values elsewhere.
\<close>

record ('c, 'd) mem_entry =
  m_captions :: 'c
  m_captionData :: 'd
  m_timestamp :: int

type_synonym ('c, 'd) memory_cache = "(string, ('c, 'd) mem_entry) js_map"

definition maxMemoryCacheSize :: nat where
  "maxMemoryCacheSize = 3"

text \<open>
  \<open>addToMemoryCache(videoId, captions, captionData)\<close>; \<open>now\<close> is the reading of
  \<open>Date.now()\<close>.  \<open>Map.delete(undefined)\<close> on an empty map removes nothing.
\<close>

definition addToMemoryCache ::
  "int \<Rightarrow> string \<Rightarrow> 'c \<Rightarrow> 'd \<Rightarrow> ('c, 'd) memory_cache \<Rightarrow> ('c, 'd) memory_cache" where
  "addToMemoryCache now videoId captions captionData mc =
     (let mc1 = Map_set videoId
                  \<lparr>m_captions = captions, m_captionData = captionData, m_timestamp = now\<rparr> mc
      in if Map_size mc1 > maxMemoryCacheSize
         then (case Map_first_key mc1 of
                 None \<Rightarrow> mc1
               | Some firstKey \<Rightarrow> Map_delete firstKey mc1)
         else mc1)"

definition clearMemoryCache :: "('c, 'd) memory_cache \<Rightarrow> ('c, 'd) memory_cache" where
  "clearMemoryCache mc = []"

text \<open>
  The memory caches a manager can hold: the constructor creates an empty \<open>Map\<close>, and
  \<open>addToMemoryCache\<close> and \<open>clearMemoryCache\<close> are the only code that changes it.
\<close>

inductive reachable_cache :: "('c, 'd) memory_cache \<Rightarrow> bool" where
  constructed: "reachable_cache []"
| added: "reachable_cache mc \<Longrightarrow> reachable_cache (addToMemoryCache now videoId c d mc)"
| cleared: "reachable_cache mc \<Longrightarrow> reachable_cache (clearMemoryCache mc)"

definition cache_inv :: "('c, 'd) memory_cache \<Rightarrow> bool" where
  "cache_inv mc = (distinct (map fst mc) \<and> Map_size mc \<le> maxMemoryCacheSize)"

section \<open>Values exchanged with the collaborators\<close>

text \<open>
  A thrown JavaScript exception or a rejected promise is the left summand of a sum type.
\<close>

datatype js_error = DOMException | TypeError | SyntaxError | NetworkError | StorageError

subsection \<open>JavaScript numbers\<close>

text \<open>
  A Number is an IEEE 754 binary64 value.  A finite one is modelled by the rational it
  denotes (the two zeros are not told apart), next to the two infinities and NaN.
  Wall-clock milliseconds and counters, which the code only adds, subtracts and
  compares well inside the range of exact integers, are modelled as integers.
\<close>

datatype js_number = Num rat | PosInfinity | NegInfinity | NaN

text \<open>The number of binary digits of a natural number.\<close>

fun bit_length :: "nat \<Rightarrow> nat" where
  "bit_length n = (if n = 0 then 0 else Suc (bit_length (n div 2)))"

declare bit_length.simps [simp del]

text \<open>\<open>pow2 q\<close> is 2 to the power \<open>q\<close>, for any integer \<open>q\<close>.\<close>

definition pow2 :: "int \<Rightarrow> rat" where
  "pow2 q = (if 0 \<le> q then 2 ^ nat q else 1 / 2 ^ nat (- q))"

text \<open>For \<open>a > 0\<close>, the integer \<open>e\<close> with \<open>2^e \<le> a < 2^(e+1)\<close>.\<close>

definition floor_log2 :: "rat \<Rightarrow> int" where
  "floor_log2 a =
     (if 1 \<le> a then int (bit_length (nat \<lfloor>a\<rfloor>)) - 1
      else - int (bit_length (nat (\<lceil>1 / a\<rceil> - 1))))"

text \<open>The nearest integer, a tie going to the even one.\<close>

definition round_half_even :: "rat \<Rightarrow> int" where
  "round_half_even y =
     (let f = \<lfloor>y\<rfloor>; d = y - of_int f
      in if d < 1 / 2 then f else if 1 / 2 < d then f + 1
         else if even f then f else f + 1)"

text \<open>
  The exponent of the last binary place of the binary64 values next to \<open>x\<close>: 53
  significant bits, and never below \<open>2^-1074\<close>, the spacing of the subnormal values.
\<close>

definition quantum :: "rat \<Rightarrow> int" where
  "quantum x = max (- 1074) (floor_log2 \<bar>x\<bar> - 52)"

definition round_finite :: "rat \<Rightarrow> rat" where
  "round_finite x =
     (if x = 0 then 0
      else of_int (round_half_even (x / pow2 (quantum x))) * pow2 (quantum x))"

text \<open>
  Rounding of an exact result to binary64, round to nearest, ties to even; a result
  that rounds to \<open>2^1024\<close> or beyond overflows to an infinity.
\<close>

definition round_double :: "rat \<Rightarrow> js_number" where
  "round_double x =
     (let r = round_finite x
      in if 2 ^ 1024 \<le> r then PosInfinity
         else if r \<le> - (2 ^ 1024) then NegInfinity
         else Num r)"

text \<open>The operators \<open>+\<close> and \<open>*\<close> on Numbers: the exact result, rounded.\<close>

fun js_add :: "js_number \<Rightarrow> js_number \<Rightarrow> js_number" where
  "js_add (Num a) (Num b) = round_double (a + b)"
| "js_add NaN y = NaN"
| "js_add x NaN = NaN"
| "js_add PosInfinity NegInfinity = NaN"
| "js_add NegInfinity PosInfinity = NaN"
| "js_add PosInfinity y = PosInfinity"
| "js_add NegInfinity y = NegInfinity"
| "js_add x PosInfinity = PosInfinity"
| "js_add x NegInfinity = NegInfinity"

definition infinity_of_sign :: "bool \<Rightarrow> js_number" where
  "infinity_of_sign positive = (if positive then PosInfinity else NegInfinity)"

fun js_mul :: "js_number \<Rightarrow> js_number \<Rightarrow> js_number" where
  "js_mul (Num a) (Num b) = round_double (a * b)"
| "js_mul NaN y = NaN"
| "js_mul x NaN = NaN"
| "js_mul PosInfinity (Num b) = (if b = 0 then NaN else infinity_of_sign (0 < b))"
| "js_mul NegInfinity (Num b) = (if b = 0 then NaN else infinity_of_sign (b < 0))"
| "js_mul (Num a) PosInfinity = (if a = 0 then NaN else infinity_of_sign (0 < a))"
| "js_mul (Num a) NegInfinity = (if a = 0 then NaN else infinity_of_sign (a < 0))"
| "js_mul PosInfinity PosInfinity = PosInfinity"
| "js_mul NegInfinity NegInfinity = PosInfinity"
| "js_mul PosInfinity NegInfinity = NegInfinity"
| "js_mul NegInfinity PosInfinity = NegInfinity"

text \<open>A value a Number can have: a finite one is a rational that rounding leaves as it
  is.\<close>

definition is_double :: "js_number \<Rightarrow> bool" where
  "is_double v = (case v of Num a \<Rightarrow> round_double a = Num a | _ \<Rightarrow> True)"

subsection \<open>JavaScript strings of caption text\<close>

text \<open>
  Caption text is split at white space and its last character is tested, so it is
  modelled as JavaScript has it: a sequence of UTF-16 code units.  Identifiers and
  tags, which the code only compares and concatenates, are Isabelle strings.
\<close>

type_synonym utf16 = "nat list"

text \<open>
  A property read from parsed JSON and used in arithmetic: absent (\<open>undefined\<close>),
  \<open>null\<close>, or a value.
\<close>

datatype 'a js_field = Missing | Null | Has 'a

record word =
  w_text :: utf16
  w_punctuation :: utf16

record caption =
  c_start :: js_number
  c_end :: js_number
  c_text :: utf16
  c_words :: "word list"

text \<open>
  \<open>serverResponse.subtitles\<close>: either the caption array itself or an object that may
  carry \<open>language\<close> and \<open>captions\<close>.
\<close>

datatype subtitles_json =
    SubsArray "caption list"
  | SubsObject "string option" "caption list option"

text \<open>
  What a \<open>captions\<close> property can hold in this code: an array of captions,
  \<open>undefined\<close> (the VTT result has no such property), or, on the server-hit path,
  the whole \<open>subtitles\<close> object when it has no \<open>captions\<close> of its own.
\<close>

datatype captions_val =
    CaptionArray "caption list"
  | CaptionsUndefined
  | CaptionsObject subtitles_json

record caption_data =
  cd_language :: "string option"
  cd_type :: "string option"
  cd_source :: "string option"

text \<open>The object returned by \<open>fetchFromVocabumin\<close> and \<open>fetchFromYtDlp\<close>.\<close>

record source_result =
  fr_success :: bool
  fr_captions :: captions_val
  fr_content :: "string option"
  fr_captionData :: "caption_data option"
  fr_errorType :: "string option"
  fr_errorMessage :: "string option"
  fr_isUserSideIssue :: "bool option"
  fr_isServerIssue :: "bool option"
  fr_warpActive :: "bool option"

record usage =
  u_burst :: string
  u_hourly :: string
  u_daily :: string

text \<open>
  The JSON decision of the endpoint \<open>/subtitles/fetch-or-cache\<close>.  \<open>d_cached\<close> and
  \<open>d_allowed\<close> are the truthiness of the properties \<open>cached\<close> and \<open>allowed\<close>; an
  absent property is None.
\<close>

record decision =
  d_cached :: bool
  d_subtitles :: "subtitles_json option"
  d_hit_count :: "int option"
  d_age_days :: "int option"
  d_allowed :: bool
  d_reason :: "string option"
  d_waitTime :: "int js_field"
  d_usage :: "usage option"

text \<open>An HTTP response: its status and the outcome of \<open>response.json()\<close>.\<close>

record 'a response =
  status :: nat
  body :: "js_error + 'a"

definition response_ok :: "'a response \<Rightarrow> bool" where
  "response_ok r = (200 \<le> status r \<and> status r \<le> 299)"

record snippet =
  sn_start :: js_number
  sn_duration :: js_number
  sn_text :: utf16

text \<open>
  \<open>data.transcript\<close> of the cloud provider: an object with \<open>snippets\<close> (possibly
  absent) and the truthiness of \<open>is_generated\<close>, or directly an array of snippets.
\<close>

datatype transcript =
    TranscriptObject "snippet list option" bool
  | TranscriptArray "snippet list"

record provider_data =
  p_success :: bool
  p_transcript :: "transcript option"
  p_language :: "string option"
  p_error_type :: "string option"
  p_error :: "string option"
  p_warp_active :: "bool option"

record json3_data =
  j_success :: bool
  j_caption_groups :: "caption list option"
  j_language :: "string option"
  j_subtitle_type :: "string option"

record vtt_data =
  v_success :: bool
  v_content :: "string option"
  v_language :: "string option"

text \<open>The row of the IndexedDB object store \<open>subtitles\<close>, key path \<open>videoId\<close>.\<close>

record idb_row =
  row_videoId :: string
  row_captions :: captions_val
  row_captionData :: "caption_data option"
  row_cachedAt :: int

text \<open>
  How an IndexedDB request ends: \<open>onsuccess\<close>, \<open>onerror\<close>, or an exception thrown
  while the transaction or the request is created.
\<close>

datatype idb_outcome = Succeeds | Fails | Throws

datatype endpoint =
    FetchOrCacheEndpoint | TranscriptEndpoint | ExtractSubsJson3Endpoint | ExtractSubsEndpoint

text \<open>
  The calls a run makes to its collaborators, in order.  The three background calls
  (\<open>storeInServerCache\<close>, \<open>logFetch\<close>, \<open>logVocabuminAPIResponse\<close>) are started and never
  awaited; each catches its own exceptions, so only the fact that it was started is
  recorded.
\<close>

datatype event =
    CheckCacheAndLimits string
  | FetchFromYtDlp string
  | Request endpoint
  | IdbOpen
  | IdbGet string
  | IdbPut idb_row
  | IdbDelete string
  | StorageGet string
  | StorageSet string
  | StoreInServerCache string "string option" "string option" source_result
  | LogFetch string "string option" bool string bool
  | LogVocabuminAPIResponse string nat bool

text \<open>
  The manager: the fields of \<open>this\<close> that the code reads and writes (\<open>db\<close> is whether
  \<open>this.db\<close> holds a handle), the content of the IndexedDB object store, and the calls
  made so far.
\<close>

record manager =
  memoryCache :: "(captions_val, caption_data option) memory_cache"
  currentVideoId :: "string option"
  db :: bool
  memoryHits :: nat
  indexedDBHits :: nat
  serverHits :: nat
  misses :: nat
  subtitles_store :: "string \<rightharpoonup> idb_row"
  calls :: "event list"

text \<open>
  What the outside world answers during one call: the clock, the outcome of each
  IndexedDB request, the extension storage, \<open>btoa\<close>, and the answer to each network
  request.  All clock readings of one call are taken to be the same instant.
\<close>

record env =
  Date_now :: int
  idb_open_ok :: bool
  idb_get_outcome :: idb_outcome
  idb_put_outcome :: idb_outcome
  idb_delete_outcome :: idb_outcome
  sync_vocabToken :: "js_error + string option"
  local_tempUserId :: "js_error + string option"
  random_suffix :: string
  local_set :: "js_error + unit"
  btoa :: "string \<Rightarrow> js_error + string"
  fetch_or_cache :: "js_error + decision response"
  sync_subtitleServer :: "js_error + string option"
  vocabumin_transcript :: "js_error + provider_data response"
  extract_subs_json3 :: "js_error + json3_data response"
  extract_subs :: "js_error + vtt_data response"

definition record_call :: "event \<Rightarrow> manager \<Rightarrow> manager" where
  "record_call e s = s\<lparr>calls := calls s @ [e]\<rparr>"

text \<open>Truthiness of an optional string: \<open>undefined\<close>, \<open>null\<close> and \<open>""\<close> are falsy.\<close>

definition truthy :: "string option \<Rightarrow> bool" where
  "truthy v = (case v of None \<Rightarrow> False | Some x \<Rightarrow> x \<noteq> [])"

text \<open>\<open>v || dflt\<close> on an optional string.\<close>

definition or_else :: "string option \<Rightarrow> string \<Rightarrow> string" where
  "or_else v dflt = (case v of None \<Rightarrow> dflt | Some x \<Rightarrow> if x = [] then dflt else x)"

subsection \<open>Numbers as text, rounding\<close>

definition digit_char :: "nat \<Rightarrow> char" where
  "digit_char n = ''0123456789'' ! (n mod 10)"

fun show_nat :: "nat \<Rightarrow> string" where
  "show_nat n = (if n < 10 then [digit_char n] else show_nat (n div 10) @ [digit_char n])"

declare show_nat.simps [simp del]

definition show_int :: "int \<Rightarrow> string" where
  "show_int i = (if i < 0 then CHR ''-'' # show_nat (nat (- i)) else show_nat (nat i))"

text \<open>\<open>Math.round(x / d)\<close> for an integer \<open>x\<close> and a positive integer \<open>d\<close>: halves
  round up.\<close>

definition Math_round_div :: "int \<Rightarrow> int \<Rightarrow> int" where
  "Math_round_div x d = (2 * x + d) div (2 * d)"

text \<open>\<open>Math.ceil(x / d)\<close> for integers.\<close>

definition Math_ceil_div :: "int \<Rightarrow> int \<Rightarrow> int" where
  "Math_ceil_div x d = - ((- x) div d)"

section \<open>The persistent tier: IndexedDB\<close>

definition cacheExpiry :: int where
  "cacheExpiry = 7 * 24 * 60 * 60 * 1000"

text \<open>
  \<open>initIndexedDB\<close>: the promise resolves with \<open>this.db\<close> set when the open request
  succeeds and rejects with \<open>request.error\<close> when it fails.  The creation of the
  object store in \<open>onupgradeneeded\<close> is part of a successful open; the store is the
  map \<open>subtitles_store\<close>.
\<close>

definition initIndexedDB :: "env \<Rightarrow> manager \<Rightarrow> (js_error + unit) \<times> manager" where
  "initIndexedDB env s =
     (let s1 = record_call IdbOpen s
      in if idb_open_ok env then (Inr (), s1\<lparr>db := True\<rparr>) else (Inl DOMException, s1))"

text \<open>
  \<open>deleteFromIndexedDB\<close>.  A request issued on the store takes effect before any later
  transaction on the same store reads it, so the effect of a successful request is
  applied at once although its promise is not awaited by the caller.
\<close>

definition deleteFromIndexedDB :: "env \<Rightarrow> string \<Rightarrow> manager \<Rightarrow> bool \<times> manager" where
  "deleteFromIndexedDB env videoId s =
     (if \<not> db s then (False, s)
      else (case idb_delete_outcome env of
              Throws \<Rightarrow> (False, s)
            | Fails \<Rightarrow> (False, record_call (IdbDelete videoId) s)
            | Succeeds \<Rightarrow>
                (True, (record_call (IdbDelete videoId) s)
                         \<lparr>subtitles_store := (subtitles_store s)(videoId := None)\<rparr>)))"

text \<open>
  \<open>getFromIndexedDB\<close>.  The \<open>await this.initIndexedDB()\<close> stands before the promise
  whose executor holds the \<open>try\<close>, so a rejected open is the rejection of this call.
\<close>

definition getFromIndexedDB ::
  "env \<Rightarrow> string \<Rightarrow> manager \<Rightarrow> (js_error + (idb_row \<times> int) option) \<times> manager" where
  "getFromIndexedDB env videoId s =
     (case (if \<not> db s then initIndexedDB env s else (Inr (), s)) of
        (Inl e, s1) \<Rightarrow> (Inl e, s1)
      | (Inr _, s1) \<Rightarrow>
          (case idb_get_outcome env of
             Throws \<Rightarrow> (Inr None, s1)
           | Fails \<Rightarrow> (Inr None, record_call (IdbGet videoId) s1)
           | Succeeds \<Rightarrow>
               (let s2 = record_call (IdbGet videoId) s1
                in case subtitles_store s2 videoId of
                     None \<Rightarrow> (Inr None, s2)
                   | Some data \<Rightarrow>
                       (let age = Date_now env - row_cachedAt data
                        in if age < cacheExpiry then (Inr (Some (data, age)), s2)
                           else (Inr None, snd (deleteFromIndexedDB env videoId s2))))))"

text \<open>\<open>saveToIndexedDB(videoId, data)\<close>; \<open>data\<close> is read at \<open>captions\<close> and
  \<open>captionData\<close> only.\<close>

definition saveToIndexedDB ::
  "env \<Rightarrow> string \<Rightarrow> source_result \<Rightarrow> manager \<Rightarrow> (js_error + bool) \<times> manager" where
  "saveToIndexedDB env videoId data s =
     (case (if \<not> db s then initIndexedDB env s else (Inr (), s)) of
        (Inl e, s1) \<Rightarrow> (Inl e, s1)
      | (Inr _, s1) \<Rightarrow>
          (let cacheData = \<lparr>row_videoId = videoId, row_captions = fr_captions data,
                            row_captionData = fr_captionData data,
                            row_cachedAt = Date_now env\<rparr>
           in case idb_put_outcome env of
                Throws \<Rightarrow> (Inr False, s1)
              | Fails \<Rightarrow> (Inr False, record_call (IdbPut cacheData) s1)
              | Succeeds \<Rightarrow>
                  (Inr True, (record_call (IdbPut cacheData) s1)
                      \<lparr>subtitles_store := (subtitles_store s1)(videoId \<mapsto> cacheData)\<rparr>)))"

section \<open>The remote cache and quota client\<close>

definition getOrCreateTempUserId :: "env \<Rightarrow> manager \<Rightarrow> (js_error + string) \<times> manager" where
  "getOrCreateTempUserId env s =
     (let s1 = record_call (StorageGet ''tempUserId'') s
      in case local_tempUserId env of
           Inl e \<Rightarrow> (Inl e, s1)
         | Inr tempUserId \<Rightarrow>
             if truthy tempUserId then (Inr (the tempUserId), s1)
             else (let newId = ''temp_'' @ random_suffix env;
                       s2 = record_call (StorageSet ''tempUserId'') s1
                   in case local_set env of
                        Inl e \<Rightarrow> (Inl e, s2)
                      | Inr _ \<Rightarrow> (Inr newId, s2)))"

text \<open>\<open>getAuthToken\<close>: every exception is caught and answered with \<open>null\<close>.\<close>

definition getAuthToken :: "env \<Rightarrow> manager \<Rightarrow> string option \<times> manager" where
  "getAuthToken env s =
     (let s1 = record_call (StorageGet ''vocabToken'') s
      in case sync_vocabToken env of
           Inl e \<Rightarrow> (None, s1)
         | Inr vocabToken \<Rightarrow>
             if \<not> truthy vocabToken
             then (case getOrCreateTempUserId env s1 of
                     (Inl e, s2) \<Rightarrow> (None, s2)
                   | (Inr tempUserId, s2) \<Rightarrow>
                       (case btoa env (tempUserId @ '':'' @ show_int (Date_now env)) of
                          Inl e \<Rightarrow> (None, s2)
                        | Inr token \<Rightarrow> (Some token, s2)))
             else (vocabToken, s1))"

definition fail_open :: decision where
  "fail_open = \<lparr>d_cached = False, d_subtitles = None, d_hit_count = None,
                 d_age_days = None, d_allowed = True, d_reason = None,
                 d_waitTime = Missing, d_usage = None\<rparr>"

definition checkCacheAndLimits :: "env \<Rightarrow> string \<Rightarrow> manager \<Rightarrow> decision \<times> manager" where
  "checkCacheAndLimits env videoId s =
     (case getAuthToken env (record_call (CheckCacheAndLimits videoId) s) of
        (token, s1) \<Rightarrow>
          if \<not> truthy token then (fail_open, s1)
          else (let s2 = record_call (Request FetchOrCacheEndpoint) s1
                in case fetch_or_cache env of
                     Inl e \<Rightarrow> (fail_open, s2)
                   | Inr resp \<Rightarrow>
                       if response_ok resp \<or> status resp = 429
                       then (case body resp of
                               Inl e \<Rightarrow> (fail_open, s2)
                             | Inr json \<Rightarrow> (json, s2))
                       else (fail_open, s2)))"

section \<open>The source fetcher\<close>

text \<open>
  \<open>extractWordsFromText\<close>: \<open>text.split(/\s+/)\<close> followed by the filter on non-empty
  pieces yields the maximal runs of code units that are not white space.  \<open>\s\<close>
  matches the ECMAScript white space and line terminators: tab, line feed, vertical
  tab, form feed, carriage return, space, U+00A0, U+1680, U+2000 to U+200A, U+2028,
  U+2029, U+202F, U+205F, U+3000 and U+FEFF.  The pattern \<open>/[.,!?;:]$/\<close> looks at the
  last code unit only.
\<close>

definition is_space :: "nat \<Rightarrow> bool" where
  "is_space c =
     (c \<in> set [9, 10, 11, 12, 13, 32, 160, 5760, 8232, 8233, 8239, 8287, 12288, 65279]
      \<or> (8192 \<le> c \<and> c \<le> 8202))"

fun split_spaces :: "utf16 \<Rightarrow> utf16 \<Rightarrow> utf16 list" where
  "split_spaces cur [] = [cur]"
| "split_spaces cur (c # cs) =
     (if is_space c then cur # split_spaces [] cs else split_spaces (cur @ [c]) cs)"

text \<open>The code units of \<open>.,!?;:\<close>.\<close>

definition ends_with_punctuation :: "utf16 \<Rightarrow> bool" where
  "ends_with_punctuation w = (w \<noteq> [] \<and> last w \<in> set [46, 44, 33, 63, 59, 58])"

definition extractWordsFromText :: "utf16 \<Rightarrow> word list" where
  "extractWordsFromText text =
     map (\<lambda>w. \<lparr>w_text = (if ends_with_punctuation w then butlast w else w),
                w_punctuation = (if ends_with_punctuation w then [last w] else [])\<rparr>)
         (filter (\<lambda>w. length w > 0) (split_spaces [] text))"

definition failure :: source_result where
  "failure = \<lparr>fr_success = False, fr_captions = CaptionsUndefined, fr_content = None,
               fr_captionData = None, fr_errorType = None, fr_errorMessage = None,
               fr_isUserSideIssue = None, fr_isServerIssue = None, fr_warpActive = None\<rparr>"

text \<open>
  \<open>data.transcript?.snippets || data.transcript\<close>.  None stands for a value on which
  \<open>snippets && snippets.length > 0\<close> is false without being an array: \<open>undefined\<close>, or
  the transcript object itself when it has no \<open>snippets\<close>.
\<close>

definition snippets_of :: "provider_data \<Rightarrow> snippet list option" where
  "snippets_of data =
     (case p_transcript data of
        None \<Rightarrow> None
      | Some (TranscriptArray xs) \<Rightarrow> Some xs
      | Some (TranscriptObject None g) \<Rightarrow> None
      | Some (TranscriptObject (Some xs) g) \<Rightarrow> Some xs)"

text \<open>\<open>data.transcript?.is_generated || false\<close>\<close>

definition isGenerated :: "provider_data \<Rightarrow> bool" where
  "isGenerated data =
     (case p_transcript data of
        Some (TranscriptObject xs g) \<Rightarrow> g
      | _ \<Rightarrow> False)"

text \<open>\<open>isGenerated ? 0.45 : 1.0\<close>; the literal \<open>0.45\<close> is the binary64 value nearest to
  45/100.\<close>

definition durationMultiplier :: "provider_data \<Rightarrow> js_number" where
  "durationMultiplier data = (if isGenerated data then round_double (45 / 100) else Num 1)"

definition vocabumin_captions :: "provider_data \<Rightarrow> snippet list \<Rightarrow> caption list" where
  "vocabumin_captions data snippets =
     map (\<lambda>segment.
            \<lparr>c_start = sn_start segment,
             c_end = js_add (sn_start segment)
                       (js_mul (sn_duration segment) (durationMultiplier data)),
             c_text = sn_text segment,
             c_words = extractWordsFromText (sn_text segment)\<rparr>) snippets"

text \<open>The structured error of the cloud path; \<open>errorType\<close> is never falsy, so
  the disjunct \<open>!errorType\<close> of \<open>isServerIssue\<close> is always false.\<close>

definition structured_error :: "provider_data \<Rightarrow> source_result" where
  "structured_error data =
     (let errorType = or_else (p_error_type data) ''unknown'';
          errorMessage = or_else (p_error data) ''Unknown error''
      in failure
           \<lparr>fr_errorType := Some errorType,
            fr_errorMessage := Some errorMessage,
            fr_isUserSideIssue := Some (errorType \<in> set
              [''no_transcript'', ''transcripts_disabled'', ''video_unavailable'']),
            fr_isServerIssue := Some (errorType \<in> set
              [''server_error'', ''youtube_ip_blocked'', ''network_error'']),
            fr_warpActive := p_warp_active data\<rparr>)"

definition vocabumin_success :: "provider_data \<Rightarrow> snippet list \<Rightarrow> source_result" where
  "vocabumin_success data snippets =
     failure
       \<lparr>fr_success := True,
        fr_captions := CaptionArray (vocabumin_captions data snippets),
        fr_captionData := Some
          \<lparr>cd_language = Some (or_else (p_language data) ''en''),
           cd_type = Some (if isGenerated data then ''auto-generated'' else ''manual''),
           cd_source = Some ''vocabumin''\<rparr>\<rparr>"

definition fetchFromVocabumin :: "env \<Rightarrow> string \<Rightarrow> manager \<Rightarrow> source_result \<times> manager" where
  "fetchFromVocabumin env videoId s =
     (let s1 = record_call (Request TranscriptEndpoint) s
      in case vocabumin_transcript env of
           Inl e \<Rightarrow> (failure, record_call (LogVocabuminAPIResponse videoId 0 False) s1)
         | Inr resp \<Rightarrow>
             if response_ok resp
             then (case body resp of
                     Inl e \<Rightarrow>
                       (failure, record_call (LogVocabuminAPIResponse videoId 0 False) s1)
                   | Inr data \<Rightarrow>
                       (let snippets = snippets_of data
                        in if p_success data \<and> snippets \<noteq> None
                              \<and> length (the snippets) > 0
                           then (vocabumin_success data (the snippets),
                                 record_call
                                   (LogVocabuminAPIResponse videoId (status resp) True) s1)
                           else (structured_error data, s1)))
             else (failure,
                   record_call (LogVocabuminAPIResponse videoId (status resp) False) s1))"

text \<open>
  The local path of \<open>fetchFromYtDlp\<close>, inside its \<open>try\<close>: the JSON3 request, then the
  VTT request; any exception ends in \<open>{success: false}\<close>.
\<close>

definition json3_result :: "json3_data \<Rightarrow> source_result" where
  "json3_result data =
     failure\<lparr>fr_success := True,
             fr_captions := (case j_caption_groups data of
                               None \<Rightarrow> CaptionsUndefined
                             | Some groups \<Rightarrow> CaptionArray groups),
             fr_captionData := Some \<lparr>cd_language = j_language data,
                                     cd_type = j_subtitle_type data,
                                     cd_source = Some ''local-ytdlp''\<rparr>\<rparr>"

definition vtt_result :: "vtt_data \<Rightarrow> source_result" where
  "vtt_result vttData =
     failure\<lparr>fr_success := True,
             fr_content := v_content vttData,
             fr_captionData := Some \<lparr>cd_language = v_language vttData,
                                     cd_type = Some ''vtt'',
                                     cd_source = Some ''local-ytdlp''\<rparr>\<rparr>"

definition fetch_vtt :: "env \<Rightarrow> manager \<Rightarrow> source_result \<times> manager" where
  "fetch_vtt env s =
     (let s1 = record_call (Request ExtractSubsEndpoint) s
      in case extract_subs env of
           Inl e \<Rightarrow> (failure, s1)
         | Inr vttResponse \<Rightarrow>
             if response_ok vttResponse
             then (case body vttResponse of
                     Inl e \<Rightarrow> (failure, s1)
                   | Inr vttData \<Rightarrow>
                       if v_success vttData then (vtt_result vttData, s1) else (failure, s1))
             else (failure, s1))"

definition fetchFromYtDlp ::
  "env \<Rightarrow> string \<Rightarrow> manager \<Rightarrow> (js_error + source_result) \<times> manager" where
  "fetchFromYtDlp env videoId s =
     (let s0 = record_call (StorageGet ''subtitleServer'')
                 (record_call (FetchFromYtDlp videoId) s)
      in case sync_subtitleServer env of
           Inl e \<Rightarrow> (Inl e, s0)
         | Inr subtitleServer \<Rightarrow>
             (let preferredServer = or_else subtitleServer ''cloud''
              in if preferredServer = ''cloud''
                 then (case fetchFromVocabumin env videoId s0 of
                         (vocabuminResult, s1) \<Rightarrow> (Inr vocabuminResult, s1))
                 else (let s1 = record_call (Request ExtractSubsJson3Endpoint) s0
                       in case extract_subs_json3 env of
                            Inl e \<Rightarrow> (Inr failure, s1)
                          | Inr resp \<Rightarrow>
                              if response_ok resp
                              then (case body resp of
                                      Inl e \<Rightarrow> (Inr failure, s1)
                                    | Inr data \<Rightarrow>
                                        if j_success data then (Inr (json3_result data), s1)
                                        else (case fetch_vtt env s1 of
                                                (r, s2) \<Rightarrow> (Inr r, s2)))
                              else (case fetch_vtt env s1 of
                                      (r, s2) \<Rightarrow> (Inr r, s2)))))"

section \<open>The orchestrator: \<open>fetchSubtitles\<close>\<close>

text \<open>The object \<open>fetchSubtitles\<close> resolves with; an absent property is None (or
  \<open>CaptionsUndefined\<close>).\<close>

record fetch_result =
  r_error :: "string option"
  r_cached :: "bool option"
  r_source :: "string option"
  r_captions :: captions_val
  r_captionData :: "caption_data option"
  r_content :: "string option"
  r_success :: "bool option"
  r_age_seconds :: "int option"
  r_age_minutes :: "int option"
  r_hit_count :: "int option"
  r_age_days :: "int option"
  r_wait_time :: "int js_field"
  r_usage :: "usage option"

definition empty_result :: fetch_result where
  "empty_result = \<lparr>r_error = None, r_cached = None, r_source = None,
                    r_captions = CaptionsUndefined, r_captionData = None, r_content = None,
                    r_success = None, r_age_seconds = None, r_age_minutes = None,
                    r_hit_count = None, r_age_days = None, r_wait_time = Missing,
                    r_usage = None\<rparr>"

definition no_video_id :: fetch_result where
  "no_video_id = empty_result\<lparr>r_error := Some ''No video ID provided'', r_cached := Some False\<rparr>"

text \<open>\<open>subtitles.language || 'en'\<close> and \<open>subtitles.captions || subtitles\<close>; an array is
  truthy even when empty.\<close>

definition subtitles_language :: "subtitles_json \<Rightarrow> string" where
  "subtitles_language subtitles =
     (case subtitles of SubsArray xs \<Rightarrow> ''en'' | SubsObject language cs \<Rightarrow> or_else language ''en'')"

definition subtitles_captions :: "subtitles_json \<Rightarrow> captions_val" where
  "subtitles_captions subtitles =
     (case subtitles of
        SubsArray xs \<Rightarrow> CaptionArray xs
      | SubsObject language (Some cs) \<Rightarrow> CaptionArray cs
      | SubsObject language None \<Rightarrow> CaptionsObject subtitles)"

text \<open>\<open>Math.ceil(serverResponse.waitTime / 60)\<close> as it prints in the message: an absent
  \<open>waitTime\<close> gives \<open>NaN\<close>, and \<open>null\<close> counts as 0.\<close>

definition waitMin :: "decision \<Rightarrow> string" where
  "waitMin serverResponse =
     (case d_waitTime serverResponse of
        Missing \<Rightarrow> ''NaN''
      | Null \<Rightarrow> ''0''
      | Has w \<Rightarrow> show_int (Math_ceil_div w 60))"

text \<open>\<open>{...fetchResult, source: fetchSource, cached: false}\<close> for a successful
  \<open>fetchResult\<close>.\<close>

definition fresh_result :: "source_result \<Rightarrow> string \<Rightarrow> fetch_result" where
  "fresh_result fetchResult fetchSource =
     empty_result\<lparr>r_success := Some (fr_success fetchResult),
                  r_captions := fr_captions fetchResult,
                  r_content := fr_content fetchResult,
                  r_captionData := fr_captionData fetchResult,
                  r_source := Some fetchSource,
                  r_cached := Some False\<rparr>"

text \<open>
  \<open>fetchSubtitles(videoId, videoTitle, channelName)\<close>.  \<open>videoId\<close> is None for
  \<open>null\<close>/\<open>undefined\<close>.  Calls to \<open>this.log\<close> and to \<open>performance.now()\<close> have no
  effect on the manager and are left out.  The result is \<open>Inl\<close> when the promise
  rejects.
\<close>

definition fetchSubtitles ::
  "env \<Rightarrow> string option \<Rightarrow> string option \<Rightarrow> string option \<Rightarrow> manager
     \<Rightarrow> (js_error + fetch_result) \<times> manager" where
  "fetchSubtitles env videoId videoTitle channelName s =
     (if \<not> truthy videoId then (Inr no_video_id, s)
      else
        (let vid = the videoId;
             s0 = s\<lparr>currentVideoId := Some vid\<rparr>
         in if Map_has vid (memoryCache s0)
            then
                (let cached = the (Map_get vid (memoryCache s0));
                     age = Date_now env - m_timestamp cached
                 in (Inr (empty_result
                            \<lparr>r_captions := m_captions cached,
                             r_captionData := m_captionData cached,
                             r_source := Some ''memory'',
                             r_cached := Some True,
                             r_age_seconds := Some (Math_round_div age 1000),
                             r_age_minutes := Some (Math_round_div age (1000 * 60))\<rparr>),
                     s0\<lparr>memoryHits := memoryHits s0 + 1\<rparr>))
            else
                (case getFromIndexedDB env vid s0 of
                   (Inl e, s1) \<Rightarrow> (Inl e, s1)
                 | (Inr (Some (data, age)), s1) \<Rightarrow>
                     (let ageMin = Math_round_div age (1000 * 60);
                          s2 = s1\<lparr>indexedDBHits := indexedDBHits s1 + 1\<rparr>;
                          s3 = s2\<lparr>memoryCache :=
                                    addToMemoryCache (Date_now env) vid (row_captions data)
                                      (row_captionData data) (memoryCache s2)\<rparr>
                      in (Inr (empty_result
                                 \<lparr>r_captions := row_captions data,
                                  r_captionData := row_captionData data,
                                  r_source := Some ''local_cache'',
                                  r_cached := Some True,
                                  r_age_minutes := Some ageMin\<rparr>), s3))
                 | (Inr None, s1) \<Rightarrow>
                     (case checkCacheAndLimits env vid s1 of
                        (serverResponse, s2) \<Rightarrow>
                          if d_cached serverResponse
                          then (let s3 = s2\<lparr>serverHits := serverHits s2 + 1\<rparr>
                                in case d_subtitles serverResponse of
                                     None \<Rightarrow> (Inl TypeError, s3)
                                   | Some subtitles \<Rightarrow>
                                       (let captionData =
                                              \<lparr>cd_language = Some (subtitles_language subtitles),
                                               cd_type = None,
                                               cd_source = Some ''server_cache''\<rparr>;
                                            s4 = s3\<lparr>memoryCache :=
                                                      addToMemoryCache (Date_now env) vid
                                                        (subtitles_captions subtitles)
                                                        (Some captionData) (memoryCache s3)\<rparr>;
                                            s5 = snd (saveToIndexedDB env vid
                                                        (failure
                                                           \<lparr>fr_captions := subtitles_captions subtitles,
                                                            fr_captionData := Some captionData\<rparr>)
                                                        s4)
                                        in (Inr (empty_result
                                                   \<lparr>r_captions := subtitles_captions subtitles,
                                                    r_captionData := Some captionData,
                                                    r_source := Some ''server_cache'',
                                                    r_cached := Some True,
                                                    r_hit_count := d_hit_count serverResponse,
                                                    r_age_days := d_age_days serverResponse\<rparr>),
                                            s5)))
                          else if \<not> d_allowed serverResponse
                          then (Inr (empty_result
                                       \<lparr>r_error := Some (''Rate limited. Wait ''
                                                          @ waitMin serverResponse @ '' minutes.''),
                                        r_wait_time := d_waitTime serverResponse,
                                        r_usage := d_usage serverResponse\<rparr>), s2)
                          else
                            (case fetchFromYtDlp env vid (s2\<lparr>misses := misses s2 + 1\<rparr>) of
                               (Inl e, s4) \<Rightarrow> (Inl e, s4)
                             | (Inr fetchResult, s4) \<Rightarrow>
                                 if \<not> fr_success fetchResult
                                 then (Inr (empty_result
                                              \<lparr>r_error := Some ''Failed to fetch subtitles'',
                                               r_cached := Some False\<rparr>), s4)
                                 else
                                   (let fetchSource =
                                          (case fr_captionData fetchResult of
                                             None \<Rightarrow> ''unknown''
                                           | Some cd \<Rightarrow> or_else (cd_source cd) ''unknown'');
                                        s5 = s4\<lparr>memoryCache :=
                                                  addToMemoryCache (Date_now env) vid
                                                    (fr_captions fetchResult)
                                                    (fr_captionData fetchResult)
                                                    (memoryCache s4)\<rparr>;
                                        s6 = snd (saveToIndexedDB env vid fetchResult s5);
                                        s7 = record_call
                                               (LogFetch vid videoTitle True fetchSource False)
                                               (record_call
                                                  (StoreInServerCache vid videoTitle channelName
                                                     fetchResult) s6)
                                    in (Inr (fresh_result fetchResult fetchSource), s7)))))))"

section \<open>A concrete manager and a concrete world\<close>

text \<open>
  The manager as the constructor leaves it (the open request it starts has not yet
  completed), over a given content of the object store, which outlives the process.
\<close>

definition new_SubtitleManager :: "(string \<rightharpoonup> idb_row) \<Rightarrow> manager" where
  "new_SubtitleManager store =
     \<lparr>memoryCache = [], currentVideoId = None, db = False, memoryHits = 0,
      indexedDBHits = 0, serverHits = 0, misses = 0, subtitles_store = store, calls = []\<rparr>"

text \<open>
  A world in which every collaborator answers: the remote check says
  \<open>{cached: false, allowed: true}\<close>, the preference is unset (cloud), and the cloud
  provider returns one machine-generated segment \<open>{start: 10, duration: 4}\<close> with
  the text \<open>hello, world\<close>.
\<close>

definition scenario_decision :: decision where
  "scenario_decision =
     fail_open\<lparr>d_usage := Some \<lparr>u_burst = ''1/5'', u_hourly = ''1/20'', u_daily = ''1/100''\<rparr>\<rparr>"

definition scenario_provider_data :: provider_data where
  "scenario_provider_data =
     \<lparr>p_success = True,
      p_transcript = Some (TranscriptObject
        (Some [\<lparr>sn_start = Num 10, sn_duration = Num 4,
                sn_text = [104, 101, 108, 108, 111, 44, 32, 119, 111, 114, 108, 100]\<rparr>]) True),
      p_language = Some ''en'', p_error_type = None, p_error = None,
      p_warp_active = None\<rparr>"

definition scenario_env :: env where
  "scenario_env =
     \<lparr>Date_now = 1700000000000,
      idb_open_ok = True,
      idb_get_outcome = Succeeds,
      idb_put_outcome = Succeeds,
      idb_delete_outcome = Succeeds,
      sync_vocabToken = Inr (Some ''token''),
      local_tempUserId = Inr None,
      random_suffix = ''k3j9x2m1q'',
      local_set = Inr (),
      btoa = (\<lambda>s. Inr s),
      fetch_or_cache = Inr \<lparr>status = 200, body = Inr scenario_decision\<rparr>,
      sync_subtitleServer = Inr None,
      vocabumin_transcript = Inr \<lparr>status = 200, body = Inr scenario_provider_data\<rparr>,
      extract_subs_json3 = Inl NetworkError,
      extract_subs = Inl NetworkError\<rparr>"

section \<open>References and the object heap\<close>

text \<open>
  The arguments \<open>captions\<close> and \<open>captionData\<close> of \<open>addToMemoryCache\<close> are references to
  objects.  Where sharing matters, a reference is an address and the objects live in a
  heap; \<open>memory_payload\<close> is what a reader sees through
  \<open>this.memoryCache.get(videoId).captions\<close>.
\<close>

type_synonym addr = nat

type_synonym 'v heap = "addr \<Rightarrow> 'v option"

definition memory_payload :: "'v heap \<Rightarrow> (addr, addr) memory_cache \<Rightarrow> string \<Rightarrow> 'v option" where
  "memory_payload h mc videoId =
     (case Map_get videoId mc of None \<Rightarrow> None | Some cached \<Rightarrow> h (m_captions cached))"

section \<open>Classes of collaborator calls\<close>

fun is_source_call :: "event \<Rightarrow> bool" where
  "is_source_call (FetchFromYtDlp v) = True"
| "is_source_call (Request TranscriptEndpoint) = True"
| "is_source_call (Request ExtractSubsJson3Endpoint) = True"
| "is_source_call (Request ExtractSubsEndpoint) = True"
| "is_source_call (LogVocabuminAPIResponse v st ok) = True"
| "is_source_call e = False"

fun is_usage_log :: "event \<Rightarrow> bool" where
  "is_usage_log (LogFetch v t ok src c) = True"
| "is_usage_log (StoreInServerCache v t c r) = True"
| "is_usage_log e = False"

text \<open>The requests a read of the persistent tier can issue: the open, the get, and the
  delete of an expired row.\<close>

fun is_idb_read :: "event \<Rightarrow> bool" where
  "is_idb_read IdbOpen = True"
| "is_idb_read (IdbGet v) = True"
| "is_idb_read (IdbDelete v) = True"
| "is_idb_read e = False"

fun is_cache_write :: "event \<Rightarrow> bool" where
  "is_cache_write (IdbPut row) = True"
| "is_cache_write e = False"

text \<open>\<open>appends P s s'\<close>: \<open>s'\<close> is \<open>s\<close> with further calls recorded, all of class \<open>P\<close>, and
  nothing else changed.\<close>

definition appends :: "(event \<Rightarrow> bool) \<Rightarrow> manager \<Rightarrow> manager \<Rightarrow> bool" where
  "appends P s s' = (\<exists>new. s' = s\<lparr>calls := calls s @ new\<rparr> \<and> list_all P new)"

section \<open>Sequences of reads of the persistent tier\<close>

text \<open>
  \<open>read_results envs videoId s\<close> are the results of reading \<open>videoId\<close> once per
  element of \<open>envs\<close>, one read after the other, each in its own world; \<open>reads\<close> is the
  manager after them.
\<close>

fun reads :: "env list \<Rightarrow> string \<Rightarrow> manager \<Rightarrow> manager" where
  "reads [] videoId s = s"
| "reads (env # envs) videoId s = reads envs videoId (snd (getFromIndexedDB env videoId s))"

fun read_results ::
  "env list \<Rightarrow> string \<Rightarrow> manager \<Rightarrow> (js_error + (idb_row \<times> int) option) list" where
  "read_results [] videoId s = []"
| "read_results (env # envs) videoId s =
     fst (getFromIndexedDB env videoId s)
       # read_results envs videoId (snd (getFromIndexedDB env videoId s))"

section \<open>Concrete rows, stores and heaps\<close>

text \<open>A row written exactly seven days before the clock of \<open>scenario_env\<close>, and one
  written a millisecond later.\<close>

definition week_old_row :: idb_row where
  "week_old_row =
     \<lparr>row_videoId = ''abc123'', row_captions = CaptionArray [],
      row_captionData = None, row_cachedAt = 1700000000000 - 604800000\<rparr>"

definition fresh_row :: idb_row where
  "fresh_row = week_old_row\<lparr>row_cachedAt := 1700000000000 - 604799999\<rparr>"

definition stale_store :: "string \<rightharpoonup> idb_row" where
  "stale_store = (\<lambda>k. if k = ''abc123'' then Some week_old_row else None)"

definition fresh_store :: "string \<rightharpoonup> idb_row" where
  "fresh_store = (\<lambda>k. if k = ''abc123'' then Some fresh_row else None)"

text \<open>A heap with one array at address 7, before and after the holder of that
  reference changes the array in place.\<close>

definition heap_before :: "string heap" where
  "heap_before = (\<lambda>a. if a = 7 then Some ''original'' else None)"

definition heap_after :: "string heap" where
  "heap_after = (\<lambda>a. if a = 7 then Some ''mutated'' else None)"

section \<open>Concrete worlds for the remote check\<close>

text \<open>The quota decision \<open>{allowed: false, reason: "burst_limit", waitTime: 300}\<close>,
  sent with status 429.\<close>

definition denied_decision :: decision where
  "denied_decision =
     \<lparr>d_cached = False, d_subtitles = None, d_hit_count = None, d_age_days = None,
      d_allowed = False, d_reason = Some ''burst_limit'', d_waitTime = Has 300,
      d_usage = Some \<lparr>u_burst = ''5/5'', u_hourly = ''5/20'', u_daily = ''5/100''\<rparr>\<rparr>"

definition denied_env :: env where
  "denied_env = scenario_env\<lparr>fetch_or_cache := Inr \<lparr>status = 429, body = Inr denied_decision\<rparr>\<rparr>"

text \<open>Worlds in which the remote check cannot complete: the extension storage throws,
  the network request throws, the server answers 500.\<close>

definition no_token_env :: env where
  "no_token_env = scenario_env\<lparr>sync_vocabToken := Inl StorageError\<rparr>"

definition offline_env :: env where
  "offline_env = scenario_env\<lparr>fetch_or_cache := Inl NetworkError\<rparr>"

definition server_error_env :: env where
  "server_error_env =
     scenario_env\<lparr>fetch_or_cache := Inr \<lparr>status = 500, body = Inr denied_decision\<rparr>\<rparr>"

text \<open>A manually authored transcript with the same segment.\<close>

definition manual_env :: env where
  "manual_env =
     scenario_env\<lparr>vocabumin_transcript := Inr \<lparr>status = 200, body = Inr
       (scenario_provider_data\<lparr>p_transcript := Some (TranscriptObject
          (Some [\<lparr>sn_start = Num 10, sn_duration = Num 4,
                  sn_text = [104, 101, 108, 108, 111, 44, 32, 119, 111, 114, 108, 100]\<rparr>])
          False)\<rparr>)\<rparr>\<rparr>"

section \<open>Concrete managers and worlds for the orchestrator\<close>

text \<open>A manager whose memory cache holds \<open>abc123\<close>, put 90 seconds before the clock of
  \<open>scenario_env\<close>.\<close>

definition warm_manager :: manager where
  "warm_manager =
     (new_SubtitleManager Map.empty)
       \<lparr>memoryCache := [(''abc123'',
           \<lparr>m_captions = CaptionArray [], m_captionData = None,
            m_timestamp = 1700000000000 - 90000\<rparr>)]\<rparr>"

text \<open>The user selected the local server; its JSON3 request answers without success
  and its VTT request succeeds.\<close>

definition vtt_env :: env where
  "vtt_env =
     scenario_env
       \<lparr>sync_subtitleServer := Inr (Some ''local''),
        extract_subs_json3 := Inr \<lparr>status = 200, body = Inr
          \<lparr>j_success = False, j_caption_groups = None, j_language = None,
           j_subtitle_type = None\<rparr>\<rparr>,
        extract_subs := Inr \<lparr>status = 200, body = Inr
          \<lparr>v_success = True, v_content = Some ''WEBVTT'', v_language = Some ''en''\<rparr>\<rparr>\<rparr>"

text \<open>The IndexedDB open request fails.\<close>

definition broken_idb_env :: env where
  "broken_idb_env = scenario_env\<lparr>idb_open_ok := False\<rparr>"

text \<open>A machine-generated transcript with the segment \<open>{start: 0, duration: 1.08}\<close>; the
  JSON number \<open>1.08\<close> is the binary64 value nearest to 108/100.\<close>

definition rounding_data :: provider_data where
  "rounding_data =
     scenario_provider_data\<lparr>p_transcript := Some (TranscriptObject
       (Some [\<lparr>sn_start = Num 0, sn_duration = round_double (108 / 100),
               sn_text = [111, 107]\<rparr>]) True)\<rparr>"

definition rounding_env :: env where
  "rounding_env =
     scenario_env\<lparr>vocabumin_transcript := Inr \<lparr>status = 200, body = Inr rounding_data\<rparr>\<rparr>"

text \<open>A successful result with one caption, and a memory cache that already holds
  another video.\<close>

definition sample_result :: source_result where
  "sample_result =
     failure
       \<lparr>fr_success := True,
        fr_captions := CaptionArray
          [\<lparr>c_start = Num 10, c_end = Num 14, c_text = [104, 105, 33],
            c_words = [\<lparr>w_text = [104, 105], w_punctuation = [33]\<rparr>]\<rparr>],
        fr_captionData := Some
          \<lparr>cd_language = Some ''en'', cd_type = Some ''manual'',
           cd_source = Some ''vocabumin''\<rparr>\<rparr>"

definition occupied_cache :: "(addr, addr) memory_cache" where
  "occupied_cache = addToMemoryCache 1 ''older'' 3 4 []"

subsection \<open>Facts about binary64 rounding\<close>

text \<open>Evaluation of floor and ceiling on quotients of numerals.\<close>

lemma floor_numeral_div:
  "\<lfloor>numeral a / numeral b :: rat\<rfloor> = numeral a div numeral b"
  using floor_divide_of_int_eq [of "numeral a" "numeral b", where ?'a = rat] by simp

lemma ceiling_numeral_div:
  "\<lceil>numeral a / numeral b :: rat\<rceil> = - (- numeral a div numeral b)"
  using floor_divide_of_int_eq [of "- numeral a" "numeral b", where ?'a = rat]
  by (simp add: ceiling_def)

lemmas number_eval = round_double_def round_finite_def quantum_def floor_log2_def pow2_def
  round_half_even_def bit_length.simps Let_def floor_numeral_div ceiling_numeral_div

lemma bit_length_bounds:
  "0 < n \<Longrightarrow> 2 ^ (bit_length n - 1) \<le> n \<and> n < 2 ^ bit_length n"
proof (induction n rule: bit_length.induct)
  case (1 n)
  show ?case
  proof (cases "n div 2 = 0")
    case True
    with "1.prems" have "n = 1" by (simp add: div_eq_0_iff)
    then show ?thesis by (simp add: bit_length.simps)
  next
    case False
    then have pos: "0 < n div 2" by simp
    from "1.prems" have ne: "n \<noteq> 0" by simp
    from "1.IH" [OF ne pos]
    have lo: "2 ^ (bit_length (n div 2) - 1) \<le> n div 2"
      and hi: "n div 2 < 2 ^ bit_length (n div 2)" by simp_all
    have b: "bit_length n = Suc (bit_length (n div 2))"
      using ne by (subst bit_length.simps) simp
    have bpos: "0 < bit_length (n div 2)"
      using pos by (subst bit_length.simps) simp
    then have "2 ^ bit_length (n div 2) = 2 * (2::nat) ^ (bit_length (n div 2) - 1)"
      by (cases "bit_length (n div 2)") simp_all
    with lo have "2 ^ bit_length (n div 2) \<le> 2 * (n div 2)" by simp
    also have "\<dots> \<le> n" by simp
    finally have l: "2 ^ (bit_length n - 1) \<le> n" by (simp add: b)
    from hi have "Suc (n div 2) \<le> 2 ^ bit_length (n div 2)" by simp
    then have "2 * Suc (n div 2) \<le> 2 * 2 ^ bit_length (n div 2)" by simp
    moreover have "n < 2 * Suc (n div 2)" by presburger
    ultimately have "n < 2 ^ bit_length n" by (simp add: b)
    with l show ?thesis by simp
  qed
qed

lemma pow2_nonneg: "0 \<le> q \<Longrightarrow> pow2 q = 2 ^ nat q"
  by (simp add: pow2_def)

lemma pow2_neg: "q \<le> 0 \<Longrightarrow> pow2 q = 1 / 2 ^ nat (- q)"
  by (auto simp: pow2_def)

text \<open>\<open>floor_log2\<close> is the binary exponent of a positive rational.\<close>

lemma floor_log2_bounds:
  assumes "0 < a"
  shows "pow2 (floor_log2 a) \<le> a \<and> a < pow2 (floor_log2 a + 1)"
proof (cases "1 \<le> a")
  case True
  let ?n = "nat \<lfloor>a\<rfloor>"
  from True have fl: "1 \<le> \<lfloor>a\<rfloor>" by simp
  then have n: "0 < ?n" by simp
  from bit_length_bounds [OF n]
  have lo: "2 ^ (bit_length ?n - 1) \<le> ?n" and hi: "?n < 2 ^ bit_length ?n" by simp_all
  have bpos: "0 < bit_length ?n" using n by (subst bit_length.simps) simp
  have e: "floor_log2 a = int (bit_length ?n) - 1" using True by (simp add: floor_log2_def)
  have e0: "0 \<le> floor_log2 a" using bpos e by simp
  have n1: "nat (floor_log2 a) = bit_length ?n - 1" using e bpos by simp
  have n2: "nat (floor_log2 a + 1) = bit_length ?n" using e bpos by simp
  have "(2::rat) ^ (bit_length ?n - 1) = of_nat (2 ^ (bit_length ?n - 1))" by simp
  also have "\<dots> \<le> of_nat ?n" using lo by (simp only: of_nat_le_iff)
  also have "\<dots> = of_int \<lfloor>a\<rfloor>" using fl by simp
  also have "\<dots> \<le> a" by simp
  finally have l: "pow2 (floor_log2 a) \<le> a" using e0 n1 by (simp add: pow2_nonneg)
  from hi have "int ?n < int (2 ^ bit_length ?n)" by (simp only: of_nat_less_iff)
  then have "int ?n + 1 \<le> 2 ^ bit_length ?n" by simp
  then have "\<lfloor>a\<rfloor> + 1 \<le> 2 ^ bit_length ?n" using fl by simp
  then have "of_int (\<lfloor>a\<rfloor> + 1) \<le> (of_int (2 ^ bit_length ?n) :: rat)"
    by (simp only: of_int_le_iff)
  moreover have "a < of_int (\<lfloor>a\<rfloor> + 1)" by linarith
  ultimately have "a < 2 ^ bit_length ?n" by simp
  then have "a < pow2 (floor_log2 a + 1)" using e0 n2 by (simp add: pow2_nonneg)
  with l show ?thesis by simp
next
  case False
  then have lt: "a < 1" by simp
  let ?y = "1 / a"
  let ?m = "\<lceil>?y\<rceil> - 1"
  let ?k = "bit_length (nat ?m)"
  have y1: "1 < ?y" using assms lt by simp
  then have "1 < \<lceil>?y\<rceil>" by (simp add: less_ceiling_iff)
  then have m: "1 \<le> ?m" by simp
  then have mn: "0 < nat ?m" by simp
  from bit_length_bounds [OF mn]
  have lo: "2 ^ (?k - 1) \<le> nat ?m" and hi: "nat ?m < 2 ^ ?k" by simp_all
  have kpos: "0 < ?k" using mn by (subst bit_length.simps) simp
  have e: "floor_log2 a = - int ?k" using False by (simp add: floor_log2_def)
  have p1: "pow2 (floor_log2 a) = 1 / 2 ^ ?k"
    using e by (simp add: pow2_neg)
  have p2: "pow2 (floor_log2 a + 1) = 1 / 2 ^ (?k - 1)"
  proof -
    have "floor_log2 a + 1 \<le> 0" using e kpos by simp
    moreover have "nat (- (floor_log2 a + 1)) = ?k - 1" using e kpos by simp
    ultimately show ?thesis by (simp add: pow2_neg)
  qed
  from hi have "int (nat ?m) < int (2 ^ ?k)" by (simp only: of_nat_less_iff)
  then have "int (nat ?m) + 1 \<le> 2 ^ ?k" by simp
  moreover have "int (nat ?m) = ?m" by (rule nat_0_le) (use m in linarith)
  ultimately have "\<lceil>?y\<rceil> \<le> 2 ^ ?k" by linarith
  then have c1: "of_int \<lceil>?y\<rceil> \<le> (of_int (2 ^ ?k) :: rat)" by (simp only: of_int_le_iff)
  have c2: "?y \<le> of_int \<lceil>?y\<rceil>" by (rule le_of_int_ceiling)
  have c3: "(of_int (2 ^ ?k) :: rat) = 2 ^ ?k" by simp
  from c1 c2 c3 have yk: "?y \<le> 2 ^ ?k" by linarith
  have l: "1 / 2 ^ ?k \<le> a"
  proof -
    from yk assms have "1 \<le> 2 ^ ?k * a" by (simp add: pos_divide_le_eq mult.commute)
    then show ?thesis by (simp add: pos_divide_le_eq mult.commute)
  qed
  from lo have "int (2 ^ (?k - 1)) \<le> int (nat ?m)" by (simp only: of_nat_le_iff)
  moreover have "int (nat ?m) = ?m" by (rule nat_0_le) (use m in linarith)
  ultimately have "2 ^ (?k - 1) \<le> ?m" by simp
  then have d1: "(of_int (2 ^ (?k - 1)) :: rat) \<le> of_int ?m" by (simp only: of_int_le_iff)
  have "of_int \<lceil>?y\<rceil> - 1 < ?y" using ceiling_correct [of ?y] by blast
  then have d2: "of_int ?m < ?y" by simp
  have d3: "(of_int (2 ^ (?k - 1)) :: rat) = 2 ^ (?k - 1)" by simp
  from d1 d2 d3 have ky: "2 ^ (?k - 1) < ?y" by linarith
  have h: "a < 1 / 2 ^ (?k - 1)"
  proof -
    from ky assms have "2 ^ (?k - 1) * a < 1" by (simp add: pos_less_divide_eq)
    then show ?thesis by (simp add: pos_less_divide_eq mult.commute)
  qed
  from l h p1 p2 show ?thesis by simp
qed

lemma pow2_pos: "0 < pow2 q"
  by (simp add: pow2_def)

lemma pow2_powi: "pow2 q = 2 powi q"
  by (simp add: pow2_def power_int_def power_one_over inverse_eq_divide)

lemma pow2_mono: "p \<le> q \<Longrightarrow> pow2 p \<le> pow2 q"
  unfolding pow2_powi by (rule power_int_increasing) simp_all

lemma round_half_even_nearest: "\<bar>y - of_int (round_half_even y)\<bar> \<le> 1 / 2"
proof -
  have "of_int \<lfloor>y\<rfloor> \<le> y" "y < of_int \<lfloor>y\<rfloor> + 1" by linarith+
  then show ?thesis
    by (auto simp: round_half_even_def Let_def abs_le_iff)
qed

text \<open>
  The last place of a non-zero \<open>x\<close>: the significand \<open>x / 2^q\<close> is below \<open>2^53\<close>, and
  at least \<open>2^52\<close> unless \<open>x\<close> is in the subnormal range, where \<open>q\<close> is \<open>-1074\<close>.
\<close>

lemma quantum_bounds:
  assumes "x \<noteq> 0"
  shows "- 1074 \<le> quantum x \<and> \<bar>x\<bar> < pow2 (quantum x + 53) \<and>
         (quantum x = - 1074 \<or> pow2 (quantum x + 52) \<le> \<bar>x\<bar>)"
proof -
  let ?e = "floor_log2 \<bar>x\<bar>"
  from assms have pos: "0 < \<bar>x\<bar>" by simp
  from floor_log2_bounds [OF pos]
  have lo: "pow2 ?e \<le> \<bar>x\<bar>" and hi: "\<bar>x\<bar> < pow2 (?e + 1)" by simp_all
  have q: "quantum x = max (- 1074) (?e - 52)" by (simp add: quantum_def)
  have "?e + 1 \<le> quantum x + 53" using q by simp
  then have "pow2 (?e + 1) \<le> pow2 (quantum x + 53)" by (rule pow2_mono)
  with hi have h: "\<bar>x\<bar> < pow2 (quantum x + 53)" by simp
  have l: "quantum x = - 1074 \<or> pow2 (quantum x + 52) \<le> \<bar>x\<bar>"
  proof (cases "- 1074 \<le> ?e - 52")
    case True
    then have "quantum x + 52 = ?e" using q by simp
    with lo show ?thesis by simp
  next
    case False
    then show ?thesis using q by simp
  qed
  from q h l show ?thesis by simp
qed

text \<open>The rounded value is a multiple of the last place, at most half a place away.\<close>

lemma round_finite_nearest:
  assumes "x \<noteq> 0"
  shows "round_finite x = of_int (round_half_even (x / pow2 (quantum x))) * pow2 (quantum x) \<and>
         \<bar>x - round_finite x\<bar> \<le> pow2 (quantum x) / 2"
proof -
  let ?p = "pow2 (quantum x)"
  let ?m = "round_half_even (x / ?p)"
  have p: "0 < ?p" by (rule pow2_pos)
  have r: "round_finite x = of_int ?m * ?p" using assms by (simp add: round_finite_def)
  have "x - of_int ?m * ?p = (x / ?p - of_int ?m) * ?p"
    using p by (simp add: field_simps)
  then have "\<bar>x - of_int ?m * ?p\<bar> = \<bar>x / ?p - of_int ?m\<bar> * ?p"
    using p by (simp add: abs_mult)
  also have "\<dots> \<le> 1 / 2 * ?p"
    using round_half_even_nearest [of "x / ?p"] p by (intro mult_right_mono) simp_all
  finally show ?thesis using r by simp
qed

lemma js_mul_one: "is_double d \<Longrightarrow> js_mul d (Num 1) = d"
  by (cases d) (simp_all add: is_double_def infinity_of_sign_def)

text \<open>The sums and products of the examples, as binary64 arithmetic gives them.\<close>

lemma double_10_plus_4_times_045:
  "js_add (Num 10) (js_mul (Num 4) (round_double (45 / 100))) = round_double (118 / 10)"
  by (simp add: number_eval)

lemma double_10_plus_4: "js_add (Num 10) (Num 4) = Num 14" "is_double (Num 4)"
  by (simp_all add: number_eval is_double_def)

lemma double_108_times_045:
  "js_add (Num 0) (js_mul (round_double (108 / 100)) (round_double (45 / 100)))
     = round_double (48600000000000004 / 100000000000000000)"
  "js_add (Num 0) (js_mul (round_double (108 / 100)) (round_double (45 / 100)))
     \<noteq> round_double (486 / 1000)"
  by (simp_all add: number_eval)

subsection \<open>Facts about the map operations\<close>

lemma Map_set_keys:
  "map fst (Map_set k v m) = (if k \<in> set (map fst m) then map fst m else map fst m @ [k])"
  by (induction m) force+

lemma Map_set_new: "k \<notin> set (map fst m) \<Longrightarrow> Map_set k v m = m @ [(k, v)]"
  by (induction m) auto

lemma Map_set_length:
  "length (Map_set k v m) = (if k \<in> set (map fst m) then length m else Suc (length m))"
  by (induction m) force+

lemma Map_set_distinct: "distinct (map fst m) \<Longrightarrow> distinct (map fst (Map_set k v m))"
  by (simp add: Map_set_keys)

lemma map_of_Map_set: "map_of (Map_set k v m) = (map_of m)(k \<mapsto> v)"
  by (induction m) (auto simp: fun_eq_iff)

lemma Map_delete_head:
  "distinct (map fst ((k, v) # m)) \<Longrightarrow> Map_delete k ((k, v) # m) = m"
proof -
  assume d: "distinct (map fst ((k, v) # m))"
  then have "\<forall>p \<in> set m. fst p \<noteq> k" by auto
  then have "filter (\<lambda>p. fst p \<noteq> k) m = m" by (simp add: filter_id_conv)
  then show ?thesis by (simp add: Map_delete_def)
qed

lemma addToMemoryCache_present:
  assumes "k \<in> set (map fst mc)" and "Map_size mc \<le> maxMemoryCacheSize"
  shows "addToMemoryCache now k c d mc =
           Map_set k \<lparr>m_captions = c, m_captionData = d, m_timestamp = now\<rparr> mc"
  using assms by (simp add: addToMemoryCache_def Map_size_def Map_set_length)

lemma addToMemoryCache_room:
  assumes "k \<notin> set (map fst mc)" and "Map_size mc < maxMemoryCacheSize"
  shows "addToMemoryCache now k c d mc =
           mc @ [(k, \<lparr>m_captions = c, m_captionData = d, m_timestamp = now\<rparr>)]"
  using assms by (simp add: addToMemoryCache_def Map_size_def Map_set_new)

lemma addToMemoryCache_full:
  assumes new: "k \<notin> set (map fst mc)" and full: "Map_size mc = maxMemoryCacheSize"
    and dist: "distinct (map fst mc)"
  shows "addToMemoryCache now k c d mc =
           tl mc @ [(k, \<lparr>m_captions = c, m_captionData = d, m_timestamp = now\<rparr>)]"
proof -
  let ?e = "\<lparr>m_captions = c, m_captionData = d, m_timestamp = now\<rparr>"
  from full obtain k0 v0 rest where mc: "mc = (k0, v0) # rest"
    by (cases mc) (auto simp: Map_size_def maxMemoryCacheSize_def)
  have set: "Map_set k ?e mc = (k0, v0) # (rest @ [(k, ?e)])"
    using new unfolding mc by (auto simp: Map_set_new)
  have d2: "distinct (map fst ((k0, v0) # (rest @ [(k, ?e)])))"
    using new dist unfolding mc by auto
  have "addToMemoryCache now k c d mc = Map_delete k0 ((k0, v0) # (rest @ [(k, ?e)]))"
    unfolding addToMemoryCache_def Let_def set
    using full by (simp add: Map_size_def Map_first_key_def mc)
  also have "\<dots> = rest @ [(k, ?e)]"
    using d2 by (rule Map_delete_head)
  finally show ?thesis by (simp add: mc)
qed

lemma addToMemoryCache_inv:
  assumes "cache_inv mc"
  shows "cache_inv (addToMemoryCache now k c d mc)"
proof (cases "k \<in> set (map fst mc)")
  case True
  with assms show ?thesis
    by (simp add: cache_inv_def addToMemoryCache_present Map_set_keys Map_size_def
        Map_set_length)
next
  case new: False
  show ?thesis
  proof (cases "Map_size mc < maxMemoryCacheSize")
    case True
    with new assms show ?thesis
      by (auto simp: cache_inv_def addToMemoryCache_room Map_size_def)
  next
    case False
    with assms have full: "Map_size mc = maxMemoryCacheSize"
      by (simp add: cache_inv_def)
    from assms have dist: "distinct (map fst mc)" by (simp add: cache_inv_def)
    have ne: "mc \<noteq> []"
      using full by (auto simp: Map_size_def maxMemoryCacheSize_def)
    have "distinct (map fst (tl mc))"
      using dist by (simp add: distinct_tl map_tl)
    moreover have "k \<notin> set (map fst (tl mc))"
      using new ne by (cases mc) auto
    moreover have "length (tl mc) + 1 \<le> maxMemoryCacheSize"
      using full ne by (cases mc) (auto simp: Map_size_def)
    ultimately show ?thesis
      using new full dist
      by (simp add: cache_inv_def addToMemoryCache_full Map_size_def)
  qed
qed

lemma reachable_cache_inv: "reachable_cache mc \<Longrightarrow> cache_inv mc"
proof (induction rule: reachable_cache.induct)
  case constructed
  show ?case by (simp add: cache_inv_def Map_size_def)
next
  case (added mc now videoId c d)
  then show ?case by (simp add: addToMemoryCache_inv)
next
  case (cleared mc)
  show ?case by (simp add: cache_inv_def Map_size_def clearMemoryCache_def)
qed

lemma addToMemoryCache_get_absent:
  assumes "Map_get k mc = None"
  shows "Map_get k (addToMemoryCache now k c d mc) =
           Some \<lparr>m_captions = c, m_captionData = d, m_timestamp = now\<rparr>"
proof -
  let ?e = "\<lparr>m_captions = c, m_captionData = d, m_timestamp = now\<rparr>"
  have new: "k \<notin> set (map fst mc)"
    using assms by (simp add: Map_get_def map_of_eq_None_iff)
  have set: "Map_set k ?e mc = mc @ [(k, ?e)]"
    using new by (rule Map_set_new)
  show ?thesis
  proof (cases mc)
    case Nil
    then show ?thesis
      by (simp add: addToMemoryCache_def Map_get_def Map_size_def maxMemoryCacheSize_def)
  next
    case (Cons p rest)
    obtain k0 v0 where p: "p = (k0, v0)" by (cases p)
    have ne: "k0 \<noteq> k" using new Cons p by auto
    have absent: "map_of rest k = None"
      using assms Cons p ne by (simp add: Map_get_def)
    have "map_of (filter (\<lambda>q. fst q \<noteq> k0) (rest @ [(k, ?e)])) k = Some ?e"
      using ne absent by (induction rest) auto
    then show ?thesis
      unfolding addToMemoryCache_def Let_def set
      using ne absent
      by (simp add: Cons p Map_first_key_def Map_delete_def Map_get_def map_add_def)
  qed
qed

lemma addToMemoryCache_get:
  assumes "cache_inv mc"
  shows "Map_get k (addToMemoryCache now k c d mc) =
           Some \<lparr>m_captions = c, m_captionData = d, m_timestamp = now\<rparr>"
proof (cases "Map_get k mc")
  case None
  then show ?thesis by (rule addToMemoryCache_get_absent)
next
  case (Some e)
  then have "k \<in> set (map fst mc)"
    by (auto simp: Map_get_def dest: map_of_SomeD intro: rev_image_eqI)
  moreover from assms have "Map_size mc \<le> maxMemoryCacheSize"
    by (simp add: cache_inv_def)
  ultimately show ?thesis
    by (simp add: addToMemoryCache_present Map_get_def map_of_Map_set)
qed

lemma addToMemoryCache_size:
  assumes "cache_inv mc"
  shows "Map_size (addToMemoryCache now k c d mc) \<le> maxMemoryCacheSize"
  using addToMemoryCache_inv [OF assms] by (simp add: cache_inv_def)

lemma addToMemoryCache_evicts:
  assumes inv: "cache_inv mc"
    and over: "Map_size (Map_set k \<lparr>m_captions = c, m_captionData = d, m_timestamp = now\<rparr> mc)
                 > maxMemoryCacheSize"
  shows "k \<notin> set (map fst mc) \<and> Map_size mc = maxMemoryCacheSize \<and>
         addToMemoryCache now k c d mc =
           tl mc @ [(k, \<lparr>m_captions = c, m_captionData = d, m_timestamp = now\<rparr>)] \<and>
         map fst mc = hd (map fst mc) # map fst (tl mc) \<and>
         hd (map fst mc) \<notin> set (map fst (addToMemoryCache now k c d mc))"
proof -
  from inv have le: "length mc \<le> maxMemoryCacheSize" and dist: "distinct (map fst mc)"
    by (simp_all add: cache_inv_def Map_size_def)
  from over le have new: "k \<notin> set (map fst mc)"
    by (auto simp: Map_size_def Map_set_length split: if_splits)
  with over le have full: "Map_size mc = maxMemoryCacheSize"
    by (simp add: Map_size_def Map_set_length)
  have eq: "addToMemoryCache now k c d mc =
              tl mc @ [(k, \<lparr>m_captions = c, m_captionData = d, m_timestamp = now\<rparr>)]"
    using new full dist by (rule addToMemoryCache_full)
  from full obtain p rest where mc: "mc = p # rest"
    by (cases mc) (auto simp: Map_size_def maxMemoryCacheSize_def)
  have "fst p \<notin> set (map fst rest)" using dist mc by simp
  moreover have "fst p \<noteq> k" using new mc by auto
  ultimately have "hd (map fst mc) \<notin> set (map fst (addToMemoryCache now k c d mc))"
    unfolding eq by (simp add: mc)
  moreover have "map fst mc = hd (map fst mc) # map fst (tl mc)"
    by (simp add: mc)
  ultimately show ?thesis using new full eq by blast
qed

lemma addToMemoryCache_keeps:
  assumes "\<not> Map_size (Map_set k \<lparr>m_captions = c, m_captionData = d, m_timestamp = now\<rparr> mc)
              > maxMemoryCacheSize"
  shows "addToMemoryCache now k c d mc =
           Map_set k \<lparr>m_captions = c, m_captionData = d, m_timestamp = now\<rparr> mc"
  using assms by (simp add: addToMemoryCache_def)

text \<open>
  C7.  In every memory cache the manager can reach, a put leaves at most 3 entries.  A
  put after which \<open>Map.set\<close> has raised the size above 3 found a full cache without
  the key, and the result is the old entries without the first one, in their order,
  followed by the new entry: exactly the oldest-inserted key is gone.  Any other put
  removes nothing.  In particular a fourth distinct key evicts the first-inserted key.
\<close>

theorem addToMemoryCache_bounded_eviction:
  "reachable_cache mc \<Longrightarrow>
     Map_size (addToMemoryCache now k c d mc) \<le> 3 \<and>
     (Map_size (Map_set k \<lparr>m_captions = c, m_captionData = d, m_timestamp = now\<rparr> mc) > 3
        \<longrightarrow> addToMemoryCache now k c d mc =
              tl mc @ [(k, \<lparr>m_captions = c, m_captionData = d, m_timestamp = now\<rparr>)]
            \<and> map fst mc = hd (map fst mc) # map fst (tl mc)
            \<and> hd (map fst mc) \<notin> set (map fst (addToMemoryCache now k c d mc))) \<and>
     (\<not> Map_size (Map_set k \<lparr>m_captions = c, m_captionData = d, m_timestamp = now\<rparr> mc) > 3
        \<longrightarrow> addToMemoryCache now k c d mc =
              Map_set k \<lparr>m_captions = c, m_captionData = d, m_timestamp = now\<rparr> mc) \<and>
     (Map_size mc = 3 \<and> k \<notin> set (map fst mc)
        \<longrightarrow> map fst (addToMemoryCache now k c d mc) = tl (map fst mc) @ [k])"
proof -
  assume r: "reachable_cache mc"
  then have inv: "cache_inv mc" by (rule reachable_cache_inv)
  then have dist: "distinct (map fst mc)" by (simp add: cache_inv_def)
  have three: "maxMemoryCacheSize = 3" by (simp add: maxMemoryCacheSize_def)
  have a: "Map_size (addToMemoryCache now k c d mc) \<le> 3"
    using addToMemoryCache_size [OF inv] by (simp add: three)
  have b: "Map_size (Map_set k \<lparr>m_captions = c, m_captionData = d, m_timestamp = now\<rparr> mc) > 3
        \<longrightarrow> addToMemoryCache now k c d mc =
              tl mc @ [(k, \<lparr>m_captions = c, m_captionData = d, m_timestamp = now\<rparr>)]
            \<and> map fst mc = hd (map fst mc) # map fst (tl mc)
            \<and> hd (map fst mc) \<notin> set (map fst (addToMemoryCache now k c d mc))"
    using addToMemoryCache_evicts [OF inv, of k c d now] unfolding three by blast
  have c: "\<not> Map_size (Map_set k \<lparr>m_captions = c, m_captionData = d, m_timestamp = now\<rparr> mc) > 3
        \<longrightarrow> addToMemoryCache now k c d mc =
              Map_set k \<lparr>m_captions = c, m_captionData = d, m_timestamp = now\<rparr> mc"
    using addToMemoryCache_keeps [of k c d now mc] by (simp add: three)
  have d: "Map_size mc = 3 \<and> k \<notin> set (map fst mc)
        \<longrightarrow> map fst (addToMemoryCache now k c d mc) = tl (map fst mc) @ [k]"
    using dist by (auto simp: addToMemoryCache_full three map_tl)
  from a b c d show ?thesis by blast
qed

theorem addToMemoryCache_bounded_eviction_witness:
  "reachable_cache
     (addToMemoryCache 3 ''v3'' (30::nat) (31::nat)
       (addToMemoryCache 2 ''v2'' 20 21 (addToMemoryCache 1 ''v1'' 10 11 []))) \<and>
   map fst (addToMemoryCache 4 ''v4'' (40::nat) (41::nat)
     (addToMemoryCache 3 ''v3'' 30 31
       (addToMemoryCache 2 ''v2'' 20 21 (addToMemoryCache 1 ''v1'' 10 11 []))))
     = [''v2'', ''v3'', ''v4''] \<and>
   Map_size (addToMemoryCache 4 ''v4'' (40::nat) (41::nat)
     (addToMemoryCache 3 ''v3'' 30 31
       (addToMemoryCache 2 ''v2'' 20 21 (addToMemoryCache 1 ''v1'' 10 11 [])))) \<le> 3"
proof -
  let ?mc = "addToMemoryCache 3 ''v3'' (30::nat) (31::nat)
       (addToMemoryCache 2 ''v2'' 20 21 (addToMemoryCache 1 ''v1'' 10 11 []))"
  have r: "reachable_cache ?mc"
    by (intro reachable_cache.added reachable_cache.constructed)
  have keys: "map fst ?mc = [''v1'', ''v2'', ''v3'']"
    by (simp add: addToMemoryCache_def Map_size_def maxMemoryCacheSize_def)
  have size: "Map_size ?mc = 3"
    by (simp add: addToMemoryCache_def Map_size_def maxMemoryCacheSize_def)
  from addToMemoryCache_bounded_eviction [OF r, of 4 "''v4''" 40 41] keys size r
  show ?thesis by simp
qed

subsection \<open>Facts about the persistent tier\<close>

lemma getFromIndexedDB_rejects:
  "\<not> db s \<Longrightarrow> \<not> idb_open_ok env \<Longrightarrow>
     getFromIndexedDB env vid s = (Inl DOMException, record_call IdbOpen s)"
  by (simp add: getFromIndexedDB_def initIndexedDB_def Let_def)

lemma getFromIndexedDB_Some:
  assumes "fst (getFromIndexedDB env vid s) = Inr (Some (row, age))"
  shows "subtitles_store s vid = Some row \<and> age = Date_now env - row_cachedAt row
         \<and> age < cacheExpiry"
  using assms
  by (auto simp: getFromIndexedDB_def initIndexedDB_def record_call_def Let_def
      split: if_splits idb_outcome.splits option.splits)

lemma getFromIndexedDB_fresh:
  assumes "db s \<or> idb_open_ok env" and "idb_get_outcome env = Succeeds"
    and "subtitles_store s vid = Some row" and "Date_now env - row_cachedAt row < cacheExpiry"
  shows "getFromIndexedDB env vid s =
           (Inr (Some (row, Date_now env - row_cachedAt row)),
            record_call (IdbGet vid) (if db s then s else (record_call IdbOpen s)\<lparr>db := True\<rparr>))"
  using assms
  by (auto simp: getFromIndexedDB_def initIndexedDB_def record_call_def Let_def)

lemma getFromIndexedDB_stale_absent:
  assumes "db s \<or> idb_open_ok env"
    and "subtitles_store s vid = Some row" and "cacheExpiry \<le> Date_now env - row_cachedAt row"
  shows "fst (getFromIndexedDB env vid s) = Inr None"
  using assms
  by (auto simp: getFromIndexedDB_def initIndexedDB_def record_call_def Let_def
      split: idb_outcome.splits)

lemma getFromIndexedDB_stale_deleted:
  assumes "db s \<or> idb_open_ok env" and "idb_get_outcome env = Succeeds"
    and "idb_delete_outcome env = Succeeds"
    and "subtitles_store s vid = Some row" and "cacheExpiry \<le> Date_now env - row_cachedAt row"
  shows "subtitles_store (snd (getFromIndexedDB env vid s)) = (subtitles_store s)(vid := None)
         \<and> db (snd (getFromIndexedDB env vid s))
         \<and> IdbDelete vid \<in> set (calls (snd (getFromIndexedDB env vid s)))"
  using assms
  by (auto simp: getFromIndexedDB_def initIndexedDB_def deleteFromIndexedDB_def
      record_call_def Let_def)

lemma getFromIndexedDB_absent:
  assumes "db s" and "subtitles_store s vid = None"
  shows "fst (getFromIndexedDB env vid s) = Inr None
         \<and> db (snd (getFromIndexedDB env vid s))
         \<and> subtitles_store (snd (getFromIndexedDB env vid s)) = subtitles_store s"
  using assms
  by (auto simp: getFromIndexedDB_def record_call_def Let_def split: idb_outcome.splits)

lemma reads_absent:
  assumes "db s" and "subtitles_store s vid = None"
  shows "(\<forall>r \<in> set (read_results envs vid s). r = Inr None)
         \<and> subtitles_store (reads envs vid s) = subtitles_store s"
  using assms
proof (induction envs arbitrary: s)
  case Nil
  show ?case by simp
next
  case (Cons env envs)
  from getFromIndexedDB_absent [OF Cons.prems, of env]
  have a: "fst (getFromIndexedDB env vid s) = Inr None"
    and b: "db (snd (getFromIndexedDB env vid s))"
    and c: "subtitles_store (snd (getFromIndexedDB env vid s)) = subtitles_store s"
    by simp_all
  from c Cons.prems have d: "subtitles_store (snd (getFromIndexedDB env vid s)) vid = None"
    by simp
  from Cons.IH [OF b d] a c show ?case by simp
qed

lemma saveToIndexedDB_ok:
  assumes "db s \<or> idb_open_ok env" and "idb_put_outcome env = Succeeds"
  shows "fst (saveToIndexedDB env vid data s) = Inr True
     \<and> db (snd (saveToIndexedDB env vid data s))
     \<and> subtitles_store (snd (saveToIndexedDB env vid data s)) =
         (subtitles_store s)(vid \<mapsto> \<lparr>row_videoId = vid, row_captions = fr_captions data,
                            row_captionData = fr_captionData data,
                            row_cachedAt = Date_now env\<rparr>)"
  using assms
  by (auto simp: saveToIndexedDB_def initIndexedDB_def record_call_def Let_def)

text \<open>
  C6.  A read returns a row only when the row is stored and its age is strictly below
  seven days, and it does return a row that young.  A stored row aged seven days or
  more is answered with absent; when the store carries out the read and the delete
  request, the row is gone after the read, every later read of the same \<open>videoId\<close>
  answers absent without raising, and the row stays gone.
\<close>

theorem getFromIndexedDB_expiry:
  "(fst (getFromIndexedDB env vid s) = Inr (Some (row, age)) \<longrightarrow>
      subtitles_store s vid = Some row \<and> age = Date_now env - row_cachedAt row \<and>
      age < 7 * 24 * 60 * 60 * 1000) \<and>
   ((db s \<or> idb_open_ok env) \<and> idb_get_outcome env = Succeeds \<and>
    subtitles_store s vid = Some row \<and>
    Date_now env - row_cachedAt row < 7 * 24 * 60 * 60 * 1000 \<longrightarrow>
      fst (getFromIndexedDB env vid s) = Inr (Some (row, Date_now env - row_cachedAt row))) \<and>
   ((db s \<or> idb_open_ok env) \<and> subtitles_store s vid = Some row \<and>
    7 * 24 * 60 * 60 * 1000 \<le> Date_now env - row_cachedAt row \<longrightarrow>
      fst (getFromIndexedDB env vid s) = Inr None \<and>
      (idb_get_outcome env = Succeeds \<and> idb_delete_outcome env = Succeeds \<longrightarrow>
         subtitles_store (snd (getFromIndexedDB env vid s)) = (subtitles_store s)(vid := None) \<and>
         (\<forall>envs.
            (\<forall>r \<in> set (read_results envs vid (snd (getFromIndexedDB env vid s))). r = Inr None) \<and>
            subtitles_store (reads envs vid (snd (getFromIndexedDB env vid s))) vid = None)))"
proof -
  have week: "cacheExpiry = 7 * 24 * 60 * 60 * 1000" by (simp add: cacheExpiry_def)
  have a: "fst (getFromIndexedDB env vid s) = Inr (Some (row, age)) \<longrightarrow>
      subtitles_store s vid = Some row \<and> age = Date_now env - row_cachedAt row \<and>
      age < 7 * 24 * 60 * 60 * 1000"
    using getFromIndexedDB_Some [of env vid s row age] unfolding week by blast
  have b: "(db s \<or> idb_open_ok env) \<and> idb_get_outcome env = Succeeds \<and>
    subtitles_store s vid = Some row \<and>
    Date_now env - row_cachedAt row < 7 * 24 * 60 * 60 * 1000 \<longrightarrow>
      fst (getFromIndexedDB env vid s) = Inr (Some (row, Date_now env - row_cachedAt row))"
    using getFromIndexedDB_fresh [of s env vid row] unfolding week by auto
  have c: "(db s \<or> idb_open_ok env) \<and> subtitles_store s vid = Some row \<and>
    7 * 24 * 60 * 60 * 1000 \<le> Date_now env - row_cachedAt row \<longrightarrow>
      fst (getFromIndexedDB env vid s) = Inr None \<and>
      (idb_get_outcome env = Succeeds \<and> idb_delete_outcome env = Succeeds \<longrightarrow>
         subtitles_store (snd (getFromIndexedDB env vid s)) = (subtitles_store s)(vid := None) \<and>
         (\<forall>envs.
            (\<forall>r \<in> set (read_results envs vid (snd (getFromIndexedDB env vid s))). r = Inr None) \<and>
            subtitles_store (reads envs vid (snd (getFromIndexedDB env vid s))) vid = None))"
  proof (intro impI, elim conjE)
    assume ready: "db s \<or> idb_open_ok env" and row: "subtitles_store s vid = Some row"
      and old: "7 * 24 * 60 * 60 * 1000 \<le> Date_now env - row_cachedAt row"
    from old have old': "cacheExpiry \<le> Date_now env - row_cachedAt row"
      unfolding week .
    have absent: "fst (getFromIndexedDB env vid s) = Inr None"
      using ready row old' by (rule getFromIndexedDB_stale_absent)
    have rest: "idb_get_outcome env = Succeeds \<and> idb_delete_outcome env = Succeeds \<longrightarrow>
         subtitles_store (snd (getFromIndexedDB env vid s)) = (subtitles_store s)(vid := None) \<and>
         (\<forall>envs.
            (\<forall>r \<in> set (read_results envs vid (snd (getFromIndexedDB env vid s))). r = Inr None) \<and>
            subtitles_store (reads envs vid (snd (getFromIndexedDB env vid s))) vid = None)"
    proof (intro impI, elim conjE)
      assume g: "idb_get_outcome env = Succeeds" and d: "idb_delete_outcome env = Succeeds"
      let ?s' = "snd (getFromIndexedDB env vid s)"
      from getFromIndexedDB_stale_deleted [OF ready g d row old']
      have gone: "subtitles_store ?s' = (subtitles_store s)(vid := None)" and isopen: "db ?s'"
        by simp_all
      from gone have none: "subtitles_store ?s' vid = None" by simp
      have "\<forall>envs. (\<forall>r \<in> set (read_results envs vid ?s'). r = Inr None) \<and>
              subtitles_store (reads envs vid ?s') vid = None"
        using reads_absent [OF isopen none] none by simp
      with gone show "subtitles_store ?s' = (subtitles_store s)(vid := None) \<and>
         (\<forall>envs. (\<forall>r \<in> set (read_results envs vid ?s'). r = Inr None) \<and>
            subtitles_store (reads envs vid ?s') vid = None)"
        by blast
    qed
    from absent rest show "fst (getFromIndexedDB env vid s) = Inr None \<and>
      (idb_get_outcome env = Succeeds \<and> idb_delete_outcome env = Succeeds \<longrightarrow>
         subtitles_store (snd (getFromIndexedDB env vid s)) = (subtitles_store s)(vid := None) \<and>
         (\<forall>envs.
            (\<forall>r \<in> set (read_results envs vid (snd (getFromIndexedDB env vid s))). r = Inr None) \<and>
            subtitles_store (reads envs vid (snd (getFromIndexedDB env vid s))) vid = None))"
      by blast
  qed
  from a b c show ?thesis by blast
qed

theorem getFromIndexedDB_expiry_witness:
  "subtitles_store (new_SubtitleManager stale_store) ''abc123'' = Some week_old_row \<and>
   7 * 24 * 60 * 60 * 1000 \<le> Date_now scenario_env - row_cachedAt week_old_row \<and>
   fst (getFromIndexedDB scenario_env ''abc123'' (new_SubtitleManager stale_store)) = Inr None \<and>
   subtitles_store
     (snd (getFromIndexedDB scenario_env ''abc123'' (new_SubtitleManager stale_store)))
     ''abc123'' = None \<and>
   read_results [scenario_env, scenario_env] ''abc123''
     (snd (getFromIndexedDB scenario_env ''abc123'' (new_SubtitleManager stale_store)))
     = [Inr None, Inr None] \<and>
   fst (getFromIndexedDB scenario_env ''abc123'' (new_SubtitleManager fresh_store))
     = Inr (Some (fresh_row, 604799999))"
proof -
  have ev: "idb_open_ok scenario_env" "idb_get_outcome scenario_env = Succeeds"
    "idb_delete_outcome scenario_env = Succeeds" "Date_now scenario_env = 1700000000000"
    by (simp_all add: scenario_env_def)
  have st: "subtitles_store (new_SubtitleManager stale_store) ''abc123'' = Some week_old_row"
    "subtitles_store (new_SubtitleManager fresh_store) ''abc123'' = Some fresh_row"
    by (simp_all add: new_SubtitleManager_def stale_store_def fresh_store_def)
  have age: "row_cachedAt week_old_row = 1700000000000 - 604800000"
    "row_cachedAt fresh_row = 1700000000000 - 604799999"
    by (simp_all add: week_old_row_def fresh_row_def)
  let ?s' = "snd (getFromIndexedDB scenario_env ''abc123'' (new_SubtitleManager stale_store))"
  have prem: "(db (new_SubtitleManager stale_store) \<or> idb_open_ok scenario_env) \<and>
      subtitles_store (new_SubtitleManager stale_store) ''abc123'' = Some week_old_row \<and>
      7 * 24 * 60 * 60 * 1000 \<le> Date_now scenario_env - row_cachedAt week_old_row"
    using ev st age by simp
  from getFromIndexedDB_expiry
         [of scenario_env "''abc123''" "new_SubtitleManager stale_store" week_old_row 0] prem
  have absent: "fst (getFromIndexedDB scenario_env ''abc123'' (new_SubtitleManager stale_store))
      = Inr None"
    and later: "idb_get_outcome scenario_env = Succeeds \<and>
      idb_delete_outcome scenario_env = Succeeds \<longrightarrow>
        subtitles_store ?s' = (subtitles_store (new_SubtitleManager stale_store))(''abc123'' := None) \<and>
        (\<forall>envs. (\<forall>r \<in> set (read_results envs ''abc123'' ?s'). r = Inr None) \<and>
           subtitles_store (reads envs ''abc123'' ?s') ''abc123'' = None)"
    by blast+
  from later ev have gone: "subtitles_store ?s' =
      (subtitles_store (new_SubtitleManager stale_store))(''abc123'' := None)"
    and every: "\<forall>envs. (\<forall>r \<in> set (read_results envs ''abc123'' ?s'). r = Inr None) \<and>
           subtitles_store (reads envs ''abc123'' ?s') ''abc123'' = None"
    by blast+
  from every have "\<forall>r \<in> set (read_results [scenario_env, scenario_env] ''abc123'' ?s').
      r = Inr None"
    by blast
  then have two: "read_results [scenario_env, scenario_env] ''abc123'' ?s' = [Inr None, Inr None]"
    by simp
  from gone have none: "subtitles_store ?s' ''abc123'' = None" by simp
  have prem2: "(db (new_SubtitleManager fresh_store) \<or> idb_open_ok scenario_env) \<and>
      idb_get_outcome scenario_env = Succeeds \<and>
      subtitles_store (new_SubtitleManager fresh_store) ''abc123'' = Some fresh_row \<and>
      Date_now scenario_env - row_cachedAt fresh_row < 7 * 24 * 60 * 60 * 1000"
    using ev st age by simp
  from getFromIndexedDB_expiry
         [of scenario_env "''abc123''" "new_SubtitleManager fresh_store" fresh_row 0] prem2
  have "fst (getFromIndexedDB scenario_env ''abc123'' (new_SubtitleManager fresh_store))
     = Inr (Some (fresh_row, Date_now scenario_env - row_cachedAt fresh_row))"
    by blast
  then have fresh: "fst (getFromIndexedDB scenario_env ''abc123'' (new_SubtitleManager fresh_store))
     = Inr (Some (fresh_row, 604799999))"
    using ev age by simp
  from absent none two fresh st(1) prem show ?thesis by blast
qed

text \<open>
  C8, as the code has it.  In a reachable memory cache, a get right after a put returns
  exactly the two references that were put, with the time of the put; nothing is
  copied, so what a reader sees through the cache is whatever the heap holds at the
  reference that was put.  A row saved to IndexedDB and read back before it expires,
  both requests succeeding, carries the saved \<open>captions\<close> and \<open>captionData\<close>.
\<close>

theorem put_then_get:
  "(reachable_cache mc \<longrightarrow>
      Map_get vid (addToMemoryCache now vid c d mc)
        = Some \<lparr>m_captions = c, m_captionData = d, m_timestamp = now\<rparr> \<and>
      (\<forall>h. memory_payload h (addToMemoryCache now vid c d mc) vid = h c)) \<and>
   ((db s \<or> idb_open_ok env) \<and> idb_put_outcome env = Succeeds \<and>
    idb_get_outcome env2 = Succeeds \<and> Date_now env2 - Date_now env < 7 * 24 * 60 * 60 * 1000 \<longrightarrow>
      fst (getFromIndexedDB env2 vid (snd (saveToIndexedDB env vid data s)))
        = Inr (Some (\<lparr>row_videoId = vid, row_captions = fr_captions data,
                       row_captionData = fr_captionData data, row_cachedAt = Date_now env\<rparr>,
                     Date_now env2 - Date_now env)))"
proof -
  have mem: "reachable_cache mc \<longrightarrow>
      Map_get vid (addToMemoryCache now vid c d mc)
        = Some \<lparr>m_captions = c, m_captionData = d, m_timestamp = now\<rparr> \<and>
      (\<forall>h. memory_payload h (addToMemoryCache now vid c d mc) vid = h c)"
  proof
    assume "reachable_cache mc"
    then have "cache_inv mc" by (rule reachable_cache_inv)
    then have g: "Map_get vid (addToMemoryCache now vid c d mc)
        = Some \<lparr>m_captions = c, m_captionData = d, m_timestamp = now\<rparr>"
      by (rule addToMemoryCache_get)
    then show "Map_get vid (addToMemoryCache now vid c d mc)
        = Some \<lparr>m_captions = c, m_captionData = d, m_timestamp = now\<rparr> \<and>
      (\<forall>h. memory_payload h (addToMemoryCache now vid c d mc) vid = h c)"
      by (simp add: memory_payload_def)
  qed
  have disk: "(db s \<or> idb_open_ok env) \<and> idb_put_outcome env = Succeeds \<and>
    idb_get_outcome env2 = Succeeds \<and> Date_now env2 - Date_now env < 7 * 24 * 60 * 60 * 1000 \<longrightarrow>
      fst (getFromIndexedDB env2 vid (snd (saveToIndexedDB env vid data s)))
        = Inr (Some (\<lparr>row_videoId = vid, row_captions = fr_captions data,
                       row_captionData = fr_captionData data, row_cachedAt = Date_now env\<rparr>,
                     Date_now env2 - Date_now env))"
  proof (intro impI, elim conjE)
    assume ready: "db s \<or> idb_open_ok env" and p: "idb_put_outcome env = Succeeds"
      and g: "idb_get_outcome env2 = Succeeds"
      and young: "Date_now env2 - Date_now env < 7 * 24 * 60 * 60 * 1000"
    let ?s' = "snd (saveToIndexedDB env vid data s)"
    let ?row = "\<lparr>row_videoId = vid, row_captions = fr_captions data,
                 row_captionData = fr_captionData data, row_cachedAt = Date_now env\<rparr>"
    from saveToIndexedDB_ok [OF ready p, of vid data]
    have isopen: "db ?s'" and row: "subtitles_store ?s' vid = Some ?row"
      by simp_all
    have y: "Date_now env2 - row_cachedAt ?row < cacheExpiry"
      using young by (simp add: cacheExpiry_def)
    from getFromIndexedDB_fresh [OF disjI1 [OF isopen] g row y]
    show "fst (getFromIndexedDB env2 vid ?s') = Inr (Some (?row, Date_now env2 - Date_now env))"
      by simp
  qed
  from mem disk show ?thesis by blast
qed

text \<open>A put of a second video into a cache that holds one, and a save over an expired
  row of the same video, read back one second later.\<close>

theorem put_then_get_witness:
  "reachable_cache occupied_cache \<and>
   Map_get ''abc123'' (addToMemoryCache 5 ''abc123'' (7::addr) (8::addr) occupied_cache)
     = Some \<lparr>m_captions = 7, m_captionData = 8, m_timestamp = 5\<rparr> \<and>
   memory_payload heap_before
       (addToMemoryCache 5 ''abc123'' (7::addr) (8::addr) occupied_cache) ''abc123''
     = Some ''original'' \<and>
   subtitles_store (new_SubtitleManager stale_store) ''abc123'' = Some week_old_row \<and>
   fst (getFromIndexedDB (scenario_env\<lparr>Date_now := 1700000001000\<rparr>) ''abc123''
          (snd (saveToIndexedDB scenario_env ''abc123'' sample_result
                  (new_SubtitleManager stale_store))))
     = Inr (Some (\<lparr>row_videoId = ''abc123'',
                    row_captions = CaptionArray
                      [\<lparr>c_start = Num 10, c_end = Num 14, c_text = [104, 105, 33],
                        c_words = [\<lparr>w_text = [104, 105], w_punctuation = [33]\<rparr>]\<rparr>],
                    row_captionData = Some
                      \<lparr>cd_language = Some ''en'', cd_type = Some ''manual'',
                       cd_source = Some ''vocabumin''\<rparr>,
                    row_cachedAt = 1700000000000\<rparr>, 1000))"
proof -
  let ?later = "scenario_env\<lparr>Date_now := 1700000001000\<rparr>"
  let ?s = "new_SubtitleManager stale_store"
  have r: "reachable_cache occupied_cache"
    unfolding occupied_cache_def
    by (rule reachable_cache.added [OF reachable_cache.constructed])
  have ev: "idb_open_ok scenario_env" "idb_get_outcome ?later = Succeeds"
    "idb_put_outcome scenario_env = Succeeds" "Date_now scenario_env = 1700000000000"
    "Date_now ?later = 1700000001000"
    by (simp_all add: scenario_env_def)
  have prem: "(db ?s \<or> idb_open_ok scenario_env) \<and>
      idb_put_outcome scenario_env = Succeeds \<and> idb_get_outcome ?later = Succeeds \<and>
      Date_now ?later - Date_now scenario_env < 7 * 24 * 60 * 60 * 1000"
    using ev by simp
  from put_then_get [where mc = occupied_cache and vid = "''abc123''" and now = 5
      and c = "7::addr" and d = "8::addr" and s = ?s and env = scenario_env
      and ?env2.0 = ?later and data = sample_result] r prem
  have g: "Map_get ''abc123'' (addToMemoryCache 5 ''abc123'' (7::addr) (8::addr) occupied_cache)
      = Some \<lparr>m_captions = 7, m_captionData = 8, m_timestamp = 5\<rparr>"
    and h: "\<forall>h :: string heap.
      memory_payload h (addToMemoryCache 5 ''abc123'' (7::addr) (8::addr) occupied_cache)
        ''abc123'' = h 7"
    and d: "fst (getFromIndexedDB ?later ''abc123''
          (snd (saveToIndexedDB scenario_env ''abc123'' sample_result ?s)))
      = Inr (Some (\<lparr>row_videoId = ''abc123'', row_captions = fr_captions sample_result,
                     row_captionData = fr_captionData sample_result,
                     row_cachedAt = Date_now scenario_env\<rparr>,
                   Date_now ?later - Date_now scenario_env))"
    by blast+
  from h have p: "memory_payload heap_before
      (addToMemoryCache 5 ''abc123'' (7::addr) (8::addr) occupied_cache) ''abc123''
        = Some ''original''"
    by (simp add: heap_before_def)
  have st: "subtitles_store ?s ''abc123'' = Some week_old_row"
    by (simp add: new_SubtitleManager_def stale_store_def)
  from d have d': "fst (getFromIndexedDB ?later ''abc123''
          (snd (saveToIndexedDB scenario_env ''abc123'' sample_result ?s)))
     = Inr (Some (\<lparr>row_videoId = ''abc123'',
                    row_captions = CaptionArray
                      [\<lparr>c_start = Num 10, c_end = Num 14, c_text = [104, 105, 33],
                        c_words = [\<lparr>w_text = [104, 105], w_punctuation = [33]\<rparr>]\<rparr>],
                    row_captionData = Some
                      \<lparr>cd_language = Some ''en'', cd_type = Some ''manual'',
                       cd_source = Some ''vocabumin''\<rparr>,
                    row_cachedAt = 1700000000000\<rparr>, 1000))"
    unfolding ev(4,5) by (simp add: sample_result_def failure_def)
  from r g p st d' show ?thesis by blast
qed

text \<open>
  C8 as stated fails on the memory cache: the reference read back from the cache is the
  reference that was put (address 7), and when the holder of that reference changes the
  array, the cache shows the change.
\<close>

theorem memory_cache_shares_reference:
  "m_captions (the (Map_get ''abc123'' (addToMemoryCache 5 ''abc123'' (7::addr) (8::addr) []))) = 7 \<and>
   memory_payload heap_before (addToMemoryCache 5 ''abc123'' (7::addr) (8::addr) []) ''abc123''
     = Some ''original'' \<and>
   memory_payload heap_after (addToMemoryCache 5 ''abc123'' (7::addr) (8::addr) []) ''abc123''
     = Some ''mutated''"
  by (simp add: addToMemoryCache_def Map_get_def Map_size_def maxMemoryCacheSize_def
      memory_payload_def heap_before_def heap_after_def)

subsection \<open>Facts about the remote check\<close>

lemma getOrCreateTempUserId_result_indep:
  "fst (getOrCreateTempUserId env s) = fst (getOrCreateTempUserId env s')"
  by (simp add: getOrCreateTempUserId_def Let_def split: sum.splits)

lemma getAuthToken_result_indep:
  "fst (getAuthToken env s) = fst (getAuthToken env s')"
proof -
  have "\<And>t t'. fst (getOrCreateTempUserId env t) = fst (getOrCreateTempUserId env t')"
    by (rule getOrCreateTempUserId_result_indep)
  then show ?thesis
    by (simp add: getAuthToken_def Let_def split_beta getOrCreateTempUserId_def
        split: sum.splits prod.splits)
qed

lemma checkCacheAndLimits_no_token:
  assumes "\<not> truthy (fst (getAuthToken env s0))"
  shows "fst (checkCacheAndLimits env vid s) = fail_open"
proof -
  have "fst (getAuthToken env (record_call (CheckCacheAndLimits vid) s)) = fst (getAuthToken env s0)"
    by (rule getAuthToken_result_indep)
  with assms show ?thesis
    by (simp add: checkCacheAndLimits_def split_beta)
qed

lemma checkCacheAndLimits_network_error:
  assumes "fetch_or_cache env = Inl e"
  shows "fst (checkCacheAndLimits env vid s) = fail_open"
  using assms by (simp add: checkCacheAndLimits_def split_beta Let_def)

lemma checkCacheAndLimits_bad_status:
  assumes "fetch_or_cache env = Inr resp" and "\<not> response_ok resp" and "status resp \<noteq> 429"
  shows "fst (checkCacheAndLimits env vid s) = fail_open"
  using assms by (simp add: checkCacheAndLimits_def split_beta Let_def)

lemma checkCacheAndLimits_bad_json:
  assumes "fetch_or_cache env = Inr resp" and "body resp = Inl e"
  shows "fst (checkCacheAndLimits env vid s) = fail_open"
  using assms by (simp add: checkCacheAndLimits_def split_beta Let_def)

lemma checkCacheAndLimits_json:
  assumes "truthy (fst (getAuthToken env s0))"
    and "fetch_or_cache env = Inr resp" and "response_ok resp \<or> status resp = 429"
    and "body resp = Inr json"
  shows "fst (checkCacheAndLimits env vid s) = json"
proof -
  have "fst (getAuthToken env (record_call (CheckCacheAndLimits vid) s)) = fst (getAuthToken env s0)"
    by (rule getAuthToken_result_indep)
  with assms show ?thesis
    by (auto simp add: checkCacheAndLimits_def split_beta Let_def)
qed

text \<open>
  C2.  When no token can be obtained, when the request throws, or when the status is
  neither 2xx nor 429, \<open>checkCacheAndLimits\<close> returns
  \<open>{cached: false, allowed: true, usage: null}\<close>; the function has no rejecting
  outcome.  With a token, a response with status 429 or 2xx whose body parses is
  answered with the parsed body, whatever the status among these.
\<close>

theorem checkCacheAndLimits_fails_open:
  "(\<not> truthy (fst (getAuthToken env s0)) \<or> (\<exists>e. fetch_or_cache env = Inl e) \<or>
    (\<exists>resp. fetch_or_cache env = Inr resp \<and> \<not> (200 \<le> status resp \<and> status resp \<le> 299)
       \<and> status resp \<noteq> 429) \<longrightarrow>
      fst (checkCacheAndLimits env vid s) =
        \<lparr>d_cached = False, d_subtitles = None, d_hit_count = None, d_age_days = None,
         d_allowed = True, d_reason = None, d_waitTime = Missing, d_usage = None\<rparr>) \<and>
   (truthy (fst (getAuthToken env s0)) \<and> fetch_or_cache env = Inr \<lparr>status = st, body = Inr json\<rparr>
      \<and> (st = 429 \<or> (200 \<le> st \<and> st \<le> 299)) \<longrightarrow>
      fst (checkCacheAndLimits env vid s) = json)"
proof -
  have a: "\<not> truthy (fst (getAuthToken env s0)) \<longrightarrow> fst (checkCacheAndLimits env vid s) = fail_open"
    using checkCacheAndLimits_no_token [of env s0 vid s] by blast
  have b: "(\<exists>e. fetch_or_cache env = Inl e) \<longrightarrow> fst (checkCacheAndLimits env vid s) = fail_open"
    using checkCacheAndLimits_network_error [of env _ vid s] by blast
  have c: "(\<exists>resp. fetch_or_cache env = Inr resp \<and> \<not> (200 \<le> status resp \<and> status resp \<le> 299)
       \<and> status resp \<noteq> 429) \<longrightarrow> fst (checkCacheAndLimits env vid s) = fail_open"
    using checkCacheAndLimits_bad_status [of env _ vid s] by (auto simp: response_ok_def)
  have d: "truthy (fst (getAuthToken env s0)) \<and> fetch_or_cache env = Inr \<lparr>status = st, body = Inr json\<rparr>
      \<and> (st = 429 \<or> (200 \<le> st \<and> st \<le> 299)) \<longrightarrow>
      fst (checkCacheAndLimits env vid s) = json"
    using checkCacheAndLimits_json [of env s0 "\<lparr>status = st, body = Inr json\<rparr>" json vid s]
    by (auto simp: response_ok_def)
  from a b c d show ?thesis unfolding fail_open_def by blast
qed

theorem checkCacheAndLimits_fails_open_witness:
  "\<not> truthy (fst (getAuthToken no_token_env (new_SubtitleManager Map.empty))) \<and>
   fst (checkCacheAndLimits no_token_env ''abc123'' (new_SubtitleManager Map.empty)) = fail_open \<and>
   fst (checkCacheAndLimits offline_env ''abc123'' (new_SubtitleManager Map.empty)) = fail_open \<and>
   fst (checkCacheAndLimits server_error_env ''abc123'' (new_SubtitleManager Map.empty)) = fail_open \<and>
   truthy (fst (getAuthToken denied_env (new_SubtitleManager Map.empty))) \<and>
   fst (checkCacheAndLimits denied_env ''abc123'' (new_SubtitleManager Map.empty)) = denied_decision"
proof -
  let ?s = "new_SubtitleManager Map.empty"
  have t1: "\<not> truthy (fst (getAuthToken no_token_env ?s))"
    by (simp add: getAuthToken_def no_token_env_def scenario_env_def Let_def truthy_def)
  have t2: "truthy (fst (getAuthToken denied_env ?s))"
    by (simp add: getAuthToken_def denied_env_def scenario_env_def Let_def truthy_def)
  have f2: "\<exists>e. fetch_or_cache offline_env = Inl e"
    by (simp add: offline_env_def scenario_env_def)
  have f3: "\<exists>resp. fetch_or_cache server_error_env = Inr resp \<and>
      \<not> (200 \<le> status resp \<and> status resp \<le> 299) \<and> status resp \<noteq> 429"
    by (simp add: server_error_env_def scenario_env_def)
  have f4: "fetch_or_cache denied_env = Inr \<lparr>status = 429, body = Inr denied_decision\<rparr>"
    by (simp add: denied_env_def scenario_env_def)
  from checkCacheAndLimits_fails_open
         [where env = no_token_env and ?s0.0 = ?s and vid = "''abc123''" and s = ?s] t1
  have r1: "fst (checkCacheAndLimits no_token_env ''abc123'' ?s) = fail_open"
    unfolding fail_open_def by blast
  from checkCacheAndLimits_fails_open
         [where env = offline_env and ?s0.0 = ?s and vid = "''abc123''" and s = ?s] f2
  have r2: "fst (checkCacheAndLimits offline_env ''abc123'' ?s) = fail_open"
    unfolding fail_open_def by blast
  from checkCacheAndLimits_fails_open
         [where env = server_error_env and ?s0.0 = ?s and vid = "''abc123''" and s = ?s] f3
  have r3: "fst (checkCacheAndLimits server_error_env ''abc123'' ?s) = fail_open"
    unfolding fail_open_def by blast
  from checkCacheAndLimits_fails_open
         [where env = denied_env and ?s0.0 = ?s and vid = "''abc123''" and s = ?s and st = 429
            and json = denied_decision] t2 f4
  have r4: "fst (checkCacheAndLimits denied_env ''abc123'' ?s) = denied_decision"
    by blast
  from t1 t2 r1 r2 r3 r4 show ?thesis by blast
qed

subsection \<open>Facts about the source fetcher\<close>

lemma fetchFromVocabumin_result_indep:
  "fst (fetchFromVocabumin env vid s) = fst (fetchFromVocabumin env vid s')"
  by (auto simp add: fetchFromVocabumin_def Let_def split: sum.splits)

lemma fetchFromVocabumin_success:
  assumes "vocabumin_transcript env = Inr resp" and "response_ok resp"
    and "body resp = Inr data" and "p_success data"
    and "snippets_of data = Some snippets" and "snippets \<noteq> []"
  shows "fst (fetchFromVocabumin env vid s) = vocabumin_success data snippets"
  using assms by (simp add: fetchFromVocabumin_def Let_def)

lemma fetchFromYtDlp_cloud:
  assumes "sync_subtitleServer env = Inr pref" and "or_else pref ''cloud'' = ''cloud''"
  shows "fst (fetchFromYtDlp env vid s) = Inr (fst (fetchFromVocabumin env vid s))"
proof -
  have "fst (fetchFromVocabumin env vid
              (record_call (StorageGet ''subtitleServer'') (record_call (FetchFromYtDlp vid) s)))
        = fst (fetchFromVocabumin env vid s)"
    by (rule fetchFromVocabumin_result_indep)
  with assms show ?thesis
    by (simp add: fetchFromYtDlp_def Let_def split_beta)
qed

text \<open>
  C5.  When the cloud provider answers with success and a non-empty list of segments,
  \<open>fetchFromVocabumin\<close> returns one caption per segment, in order, with the segment's
  start and text.  For a machine-generated transcript the end is the Number
  \<open>start + duration * 0.45\<close>; for a manually authored one it is the Number
  \<open>start + duration * 1.0\<close>, which is \<open>start + duration\<close>.  Sums and products are those
  of binary64 arithmetic.  \<open>fetchFromYtDlp\<close> returns that same result when the
  preference selects the cloud.
\<close>

theorem fetchFromVocabumin_end_times:
  "vocabumin_transcript env = Inr resp \<and> 200 \<le> status resp \<and> status resp \<le> 299 \<and>
   body resp = Inr data \<and> p_success data \<and> snippets_of data = Some snippets \<and> snippets \<noteq> [] \<longrightarrow>
     (\<exists>caps. fr_captions (fst (fetchFromVocabumin env vid s)) = CaptionArray caps \<and>
        fr_success (fst (fetchFromVocabumin env vid s)) \<and>
        length caps = length snippets \<and>
        (\<forall>i < length snippets.
           c_start (caps ! i) = sn_start (snippets ! i) \<and>
           c_text (caps ! i) = sn_text (snippets ! i) \<and>
           c_end (caps ! i) =
             (if isGenerated data
              then js_add (sn_start (snippets ! i))
                     (js_mul (sn_duration (snippets ! i)) (round_double (45 / 100)))
              else js_add (sn_start (snippets ! i))
                     (js_mul (sn_duration (snippets ! i)) (Num 1))) \<and>
           (\<not> isGenerated data \<and> is_double (sn_duration (snippets ! i)) \<longrightarrow>
              c_end (caps ! i) = js_add (sn_start (snippets ! i)) (sn_duration (snippets ! i)))) \<and>
        (\<forall>pref. sync_subtitleServer env = Inr pref \<and> or_else pref ''cloud'' = ''cloud'' \<longrightarrow>
           (\<exists>r. fst (fetchFromYtDlp env vid s) = Inr r \<and> fr_captions r = CaptionArray caps)))"
proof (intro impI, elim conjE)
  assume v: "vocabumin_transcript env = Inr resp" and lo: "200 \<le> status resp"
    and hi: "status resp \<le> 299" and b: "body resp = Inr data" and ok: "p_success data"
    and sn: "snippets_of data = Some snippets" and ne: "snippets \<noteq> []"
  let ?caps = "vocabumin_captions data snippets"
  have okr: "response_ok resp" using lo hi by (simp add: response_ok_def)
  have res: "fst (fetchFromVocabumin env vid s) = vocabumin_success data snippets"
    using v okr b ok sn ne by (rule fetchFromVocabumin_success)
  have 1: "fr_captions (fst (fetchFromVocabumin env vid s)) = CaptionArray ?caps"
    and 2: "fr_success (fst (fetchFromVocabumin env vid s))"
    by (simp_all add: res vocabumin_success_def failure_def)
  have 3: "length ?caps = length snippets"
    by (simp add: vocabumin_captions_def)
  have 4: "\<forall>i < length snippets.
           c_start (?caps ! i) = sn_start (snippets ! i) \<and>
           c_text (?caps ! i) = sn_text (snippets ! i) \<and>
           c_end (?caps ! i) =
             (if isGenerated data
              then js_add (sn_start (snippets ! i))
                     (js_mul (sn_duration (snippets ! i)) (round_double (45 / 100)))
              else js_add (sn_start (snippets ! i))
                     (js_mul (sn_duration (snippets ! i)) (Num 1))) \<and>
           (\<not> isGenerated data \<and> is_double (sn_duration (snippets ! i)) \<longrightarrow>
              c_end (?caps ! i) = js_add (sn_start (snippets ! i)) (sn_duration (snippets ! i)))"
    by (simp add: vocabumin_captions_def durationMultiplier_def js_mul_one)
  have 5: "\<forall>pref. sync_subtitleServer env = Inr pref \<and> or_else pref ''cloud'' = ''cloud'' \<longrightarrow>
           (\<exists>r. fst (fetchFromYtDlp env vid s) = Inr r \<and> fr_captions r = CaptionArray ?caps)"
    using fetchFromYtDlp_cloud [of env _ vid s] 1 by auto
  from 1 2 3 4 5
  show "\<exists>caps. fr_captions (fst (fetchFromVocabumin env vid s)) = CaptionArray caps \<and>
        fr_success (fst (fetchFromVocabumin env vid s)) \<and>
        length caps = length snippets \<and>
        (\<forall>i < length snippets.
           c_start (caps ! i) = sn_start (snippets ! i) \<and>
           c_text (caps ! i) = sn_text (snippets ! i) \<and>
           c_end (caps ! i) =
             (if isGenerated data
              then js_add (sn_start (snippets ! i))
                     (js_mul (sn_duration (snippets ! i)) (round_double (45 / 100)))
              else js_add (sn_start (snippets ! i))
                     (js_mul (sn_duration (snippets ! i)) (Num 1))) \<and>
           (\<not> isGenerated data \<and> is_double (sn_duration (snippets ! i)) \<longrightarrow>
              c_end (caps ! i) = js_add (sn_start (snippets ! i)) (sn_duration (snippets ! i)))) \<and>
        (\<forall>pref. sync_subtitleServer env = Inr pref \<and> or_else pref ''cloud'' = ''cloud'' \<longrightarrow>
           (\<exists>r. fst (fetchFromYtDlp env vid s) = Inr r \<and> fr_captions r = CaptionArray caps))"
    by blast
qed

text \<open>The run of the cloud path on one segment, as the theorem above gives it.\<close>

theorem fetchFromVocabumin_end_times_witness:
  "(\<exists>caps. fr_captions (fst (fetchFromVocabumin scenario_env ''abc123''
                              (new_SubtitleManager Map.empty))) = CaptionArray caps \<and>
      length caps = 1 \<and> c_start (caps ! 0) = Num 10 \<and>
      c_end (caps ! 0) = round_double (118 / 10)) \<and>
   (\<exists>caps. fr_captions (fst (fetchFromVocabumin manual_env ''abc123''
                              (new_SubtitleManager Map.empty))) = CaptionArray caps \<and>
      length caps = 1 \<and> c_start (caps ! 0) = Num 10 \<and> c_end (caps ! 0) = Num 14) \<and>
   (\<exists>caps. fr_captions (fst (fetchFromVocabumin rounding_env ''abc123''
                              (new_SubtitleManager Map.empty))) = CaptionArray caps \<and>
      length caps = 1 \<and>
      c_end (caps ! 0) = round_double (48600000000000004 / 100000000000000000) \<and>
      c_end (caps ! 0) \<noteq> round_double (486 / 1000))"
proof -
  let ?s = "new_SubtitleManager Map.empty"
  have run: "\<exists>caps. fr_captions (fst (fetchFromVocabumin env ''abc123'' ?s)) = CaptionArray caps \<and>
        length caps = 1 \<and>
        c_start (caps ! 0) = sn_start seg \<and>
        c_end (caps ! 0) =
          (if isGenerated data
           then js_add (sn_start seg) (js_mul (sn_duration seg) (round_double (45 / 100)))
           else js_add (sn_start seg) (js_mul (sn_duration seg) (Num 1))) \<and>
        (\<not> isGenerated data \<and> is_double (sn_duration seg) \<longrightarrow>
           c_end (caps ! 0) = js_add (sn_start seg) (sn_duration seg))"
    if env: "vocabumin_transcript env = Inr \<lparr>status = 200, body = Inr data\<rparr>"
      and data: "p_success data" "snippets_of data = Some [seg]"
    for env data seg
  proof -
    have prem: "vocabumin_transcript env = Inr \<lparr>status = 200, body = Inr data\<rparr> \<and>
        200 \<le> status \<lparr>status = 200, body = Inr data\<rparr> \<and>
        status \<lparr>status = 200, body = Inr data\<rparr> \<le> 299 \<and>
        body \<lparr>status = 200, body = Inr data\<rparr> = Inr data \<and>
        p_success data \<and> snippets_of data = Some [seg] \<and> [seg] \<noteq> []"
      using env data by simp
    from fetchFromVocabumin_end_times
           [where env = env and resp = "\<lparr>status = 200, body = Inr data\<rparr>" and data = data
              and snippets = "[seg]" and vid = "''abc123''" and s = ?s] prem
    obtain caps where c: "fr_captions (fst (fetchFromVocabumin env ''abc123'' ?s)) = CaptionArray caps"
      and l: "length caps = length [seg]"
      and e: "\<forall>i < length [seg].
           c_start (caps ! i) = sn_start ([seg] ! i) \<and>
           c_text (caps ! i) = sn_text ([seg] ! i) \<and>
           c_end (caps ! i) =
             (if isGenerated data
              then js_add (sn_start ([seg] ! i))
                     (js_mul (sn_duration ([seg] ! i)) (round_double (45 / 100)))
              else js_add (sn_start ([seg] ! i))
                     (js_mul (sn_duration ([seg] ! i)) (Num 1))) \<and>
           (\<not> isGenerated data \<and> is_double (sn_duration ([seg] ! i)) \<longrightarrow>
              c_end (caps ! i) = js_add (sn_start ([seg] ! i)) (sn_duration ([seg] ! i)))"
      by blast
    from e have "c_start (caps ! 0) = sn_start seg \<and>
        c_end (caps ! 0) =
          (if isGenerated data
           then js_add (sn_start seg) (js_mul (sn_duration seg) (round_double (45 / 100)))
           else js_add (sn_start seg) (js_mul (sn_duration seg) (Num 1))) \<and>
        (\<not> isGenerated data \<and> is_double (sn_duration seg) \<longrightarrow>
           c_end (caps ! 0) = js_add (sn_start seg) (sn_duration seg))"
      by (simp add: js_mul_one)
    with c l show ?thesis by auto
  qed
  let ?text = "[104, 101, 108, 108, 111, 44, 32, 119, 111, 114, 108, 100] :: utf16"
  let ?seg = "\<lparr>sn_start = Num 10, sn_duration = Num 4, sn_text = ?text\<rparr>"
  let ?manual = "scenario_provider_data\<lparr>p_transcript := Some (TranscriptObject (Some [?seg]) False)\<rparr>"
  let ?seg3 = "\<lparr>sn_start = Num 0, sn_duration = round_double (108 / 100), sn_text = [111, 107]\<rparr>"
  have g1: "isGenerated scenario_provider_data" and g2: "\<not> isGenerated ?manual"
    and g3: "isGenerated rounding_data"
    by (simp_all add: isGenerated_def scenario_provider_data_def rounding_data_def)
  have a: "\<exists>caps. fr_captions (fst (fetchFromVocabumin scenario_env ''abc123'' ?s)) = CaptionArray caps \<and>
      length caps = 1 \<and> c_start (caps ! 0) = Num 10 \<and>
      c_end (caps ! 0) = round_double (118 / 10)"
    using run [of scenario_env scenario_provider_data ?seg] g1 double_10_plus_4_times_045
    by (simp add: scenario_env_def scenario_provider_data_def snippets_of_def)
  have b: "\<exists>caps. fr_captions (fst (fetchFromVocabumin manual_env ''abc123'' ?s)) = CaptionArray caps \<and>
      length caps = 1 \<and> c_start (caps ! 0) = Num 10 \<and> c_end (caps ! 0) = Num 14"
    using run [of manual_env ?manual ?seg] g2 double_10_plus_4
    by (auto simp add: manual_env_def scenario_env_def scenario_provider_data_def snippets_of_def
        simp del: js_add.simps js_mul.simps)
  have c: "\<exists>caps. fr_captions (fst (fetchFromVocabumin rounding_env ''abc123'' ?s)) = CaptionArray caps \<and>
      length caps = 1 \<and>
      c_end (caps ! 0) = round_double (48600000000000004 / 100000000000000000) \<and>
      c_end (caps ! 0) \<noteq> round_double (486 / 1000)"
    using run [of rounding_env rounding_data ?seg3] g3 double_108_times_045
    by (auto simp add: rounding_env_def scenario_env_def rounding_data_def scenario_provider_data_def
        snippets_of_def simp del: js_add.simps js_mul.simps)
  from a b c show ?thesis by blast
qed

subsection \<open>What each collaborator call leaves unchanged\<close>

lemma appends_refl: "appends P s s"
  by (auto simp: appends_def intro: exI [of _ "[]"])

lemma appends_trans: "appends P s s' \<Longrightarrow> appends P s' s'' \<Longrightarrow> appends P s s''"
  by (auto simp: appends_def)

lemma appends_rc: "P e \<Longrightarrow> appends P s s' \<Longrightarrow> appends P s (record_call e s')"
proof -
  assume p: "P e" and a: "appends P s s'"
  then obtain new where s': "s' = s\<lparr>calls := calls s @ new\<rparr>" and all: "list_all P new"
    by (auto simp: appends_def)
  have "record_call e s' = s\<lparr>calls := calls s @ (new @ [e])\<rparr>"
    by (simp add: record_call_def s')
  moreover have "list_all P (new @ [e])" using p all by simp
  ultimately show ?thesis unfolding appends_def by blast
qed

lemma appends_mono: "appends P s s' \<Longrightarrow> (\<And>e. P e \<Longrightarrow> Q e) \<Longrightarrow> appends Q s s'"
  by (auto simp: appends_def list_all_iff)

lemma appends_frame:
  assumes "appends P s s'"
  shows "memoryCache s' = memoryCache s" and "subtitles_store s' = subtitles_store s"
    and "db s' = db s" and "\<exists>new. calls s' = calls s @ new \<and> list_all P new"
  using assms by (auto simp: appends_def)

lemma getOrCreateTempUserId_appends:
  assumes "\<And>k. P (StorageGet k)" and "\<And>k. P (StorageSet k)"
  shows "appends P s0 s \<Longrightarrow> appends P s0 (snd (getOrCreateTempUserId env s))"
  unfolding getOrCreateTempUserId_def Let_def
  by (simp split: sum.splits add: appends_rc assms)

lemma getAuthToken_appends:
  assumes "\<And>k. P (StorageGet k)" and "\<And>k. P (StorageSet k)"
  shows "appends P s0 s \<Longrightarrow> appends P s0 (snd (getAuthToken env s))"
proof -
  assume a: "appends P s0 s"
  let ?s1 = "record_call (StorageGet ''vocabToken'') s"
  have 1: "appends P s0 ?s1" using a assms by (simp add: appends_rc)
  have 2: "appends P s0 (snd (getOrCreateTempUserId env ?s1))"
    using assms 1 by (rule getOrCreateTempUserId_appends)
  show ?thesis
    unfolding getAuthToken_def Let_def
    using 1 2 by (simp split: sum.splits prod.splits add: split_beta)
qed


lemma checkCacheAndLimits_appends:
  assumes "\<And>k. P (StorageGet k)" and "\<And>k. P (StorageSet k)"
    and "\<And>v. P (CheckCacheAndLimits v)" and "P (Request FetchOrCacheEndpoint)"
  shows "appends P s0 s \<Longrightarrow> appends P s0 (snd (checkCacheAndLimits env vid s))"
proof -
  assume a: "appends P s0 s"
  let ?s1 = "snd (getAuthToken env (record_call (CheckCacheAndLimits vid) s))"
  have "appends P s0 (record_call (CheckCacheAndLimits vid) s)"
    using a assms(3) by (simp add: appends_rc)
  with assms(1,2) have 1: "appends P s0 ?s1" by (rule getAuthToken_appends)
  then have 2: "appends P s0 (record_call (Request FetchOrCacheEndpoint) ?s1)"
    using assms(4) by (simp add: appends_rc)
  show ?thesis
    unfolding checkCacheAndLimits_def Let_def
    using 1 2 by (simp split: sum.splits add: split_beta)
qed

lemma fetchFromVocabumin_appends:
  assumes "\<And>e. is_source_call e \<Longrightarrow> P e"
  shows "appends P s0 s \<Longrightarrow> appends P s0 (snd (fetchFromVocabumin env vid s))"
proof -
  assume a: "appends P s0 s"
  have 1: "appends P s0 (record_call (Request TranscriptEndpoint) s)"
    using a assms by (simp add: appends_rc)
  then have 2: "\<And>st ok. appends P s0 (record_call (LogVocabuminAPIResponse vid st ok)
      (record_call (Request TranscriptEndpoint) s))"
    using assms by (simp add: appends_rc)
  show ?thesis
    unfolding fetchFromVocabumin_def Let_def
    using 1 2 by (simp split: sum.splits)
qed

lemma fetch_vtt_appends:
  assumes "\<And>e. is_source_call e \<Longrightarrow> P e"
  shows "appends P s0 s \<Longrightarrow> appends P s0 (snd (fetch_vtt env s))"
proof -
  assume a: "appends P s0 s"
  have 1: "appends P s0 (record_call (Request ExtractSubsEndpoint) s)"
    using a assms by (simp add: appends_rc)
  show ?thesis
    unfolding fetch_vtt_def Let_def
    using 1 by (simp split: sum.splits)
qed

lemma fetchFromYtDlp_appends:
  assumes "\<And>e. is_source_call e \<Longrightarrow> P e" and "\<And>k. P (StorageGet k)"
  shows "appends P s0 s \<Longrightarrow> appends P s0 (snd (fetchFromYtDlp env vid s))"
proof -
  assume a: "appends P s0 s"
  let ?s0 = "record_call (StorageGet ''subtitleServer'') (record_call (FetchFromYtDlp vid) s)"
  let ?s1 = "record_call (Request ExtractSubsJson3Endpoint) ?s0"
  have 0: "appends P s0 ?s0"
    using a assms by (simp add: appends_rc)
  then have 1: "appends P s0 ?s1"
    using assms by (simp add: appends_rc)
  from assms(1) 0 have 2: "appends P s0 (snd (fetchFromVocabumin env vid ?s0))"
    by (rule fetchFromVocabumin_appends)
  from assms(1) 1 have 3: "appends P s0 (snd (fetch_vtt env ?s1))"
    by (rule fetch_vtt_appends)
  show ?thesis
    unfolding fetchFromYtDlp_def Let_def
    using 0 1 2 3 by (simp split: sum.splits add: split_beta)
qed

lemma getFromIndexedDB_memoryCache:
  "memoryCache (snd (getFromIndexedDB env vid s)) = memoryCache s"
  by (simp add: getFromIndexedDB_def initIndexedDB_def deleteFromIndexedDB_def record_call_def
      Let_def split: idb_outcome.splits option.splits)

lemma getFromIndexedDB_calls:
  "\<exists>new. calls (snd (getFromIndexedDB env vid s)) = calls s @ new \<and> list_all is_idb_read new"
  by (simp add: getFromIndexedDB_def initIndexedDB_def deleteFromIndexedDB_def record_call_def
      Let_def split: idb_outcome.splits option.splits)

lemma getFromIndexedDB_store:
  "subtitles_store (snd (getFromIndexedDB env vid s)) = subtitles_store s \<or>
   (\<exists>row. subtitles_store s vid = Some row \<and> cacheExpiry \<le> Date_now env - row_cachedAt row \<and>
      subtitles_store (snd (getFromIndexedDB env vid s)) = (subtitles_store s)(vid := None))"
  by (simp add: getFromIndexedDB_def initIndexedDB_def deleteFromIndexedDB_def record_call_def
      Let_def split: idb_outcome.splits option.splits)

subsection \<open>The orchestrator on local hits\<close>

lemma fetchSubtitles_memory_hit:
  assumes "vid \<noteq> []" and "Map_get vid (memoryCache s) = Some cached"
  shows "fetchSubtitles env (Some vid) title channel s =
           (Inr (empty_result
                   \<lparr>r_captions := m_captions cached,
                    r_captionData := m_captionData cached,
                    r_source := Some ''memory'',
                    r_cached := Some True,
                    r_age_seconds := Some (Math_round_div (Date_now env - m_timestamp cached) 1000),
                    r_age_minutes :=
                      Some (Math_round_div (Date_now env - m_timestamp cached) (1000 * 60))\<rparr>),
            s\<lparr>currentVideoId := Some vid, memoryHits := memoryHits s + 1\<rparr>)"
  using assms by (simp add: fetchSubtitles_def truthy_def Map_has_def Map_get_def Let_def)

lemma fetchSubtitles_disk_hit:
  assumes "vid \<noteq> []" and miss: "Map_get vid (memoryCache s) = None"
    and "db s \<or> idb_open_ok env" and "idb_get_outcome env = Succeeds"
    and "subtitles_store s vid = Some row" and "Date_now env - row_cachedAt row < cacheExpiry"
  shows "fst (fetchSubtitles env (Some vid) title channel s) =
           Inr (empty_result
                  \<lparr>r_captions := row_captions row,
                   r_captionData := row_captionData row,
                   r_source := Some ''local_cache'',
                   r_cached := Some True,
                   r_age_minutes :=
                     Some (Math_round_div (Date_now env - row_cachedAt row) (1000 * 60))\<rparr>)"
    and "Map_get vid (memoryCache (snd (fetchSubtitles env (Some vid) title channel s))) =
           Some \<lparr>m_captions = row_captions row, m_captionData = row_captionData row,
                 m_timestamp = Date_now env\<rparr>"
    and "calls (snd (fetchSubtitles env (Some vid) title channel s)) =
           calls s @ (if db s then [IdbGet vid] else [IdbOpen, IdbGet vid])"
    and "subtitles_store (snd (fetchSubtitles env (Some vid) title channel s)) = subtitles_store s"
proof -
  let ?s0 = "s\<lparr>currentVideoId := Some vid\<rparr>"
  let ?s1 = "record_call (IdbGet vid)
               (if db ?s0 then ?s0 else (record_call IdbOpen ?s0)\<lparr>db := True\<rparr>)"
  have g: "getFromIndexedDB env vid ?s0 = (Inr (Some (row, Date_now env - row_cachedAt row)), ?s1)"
    using assms by (intro getFromIndexedDB_fresh) simp_all
  have m1: "memoryCache ?s1 = memoryCache s"
    by (simp add: record_call_def)
  have put: "Map_get vid (addToMemoryCache (Date_now env) vid (row_captions row)
                 (row_captionData row) (memoryCache s)) =
           Some \<lparr>m_captions = row_captions row, m_captionData = row_captionData row,
                 m_timestamp = Date_now env\<rparr>"
    using miss by (rule addToMemoryCache_get_absent)
  have run: "fetchSubtitles env (Some vid) title channel s =
      (Inr (empty_result
                  \<lparr>r_captions := row_captions row,
                   r_captionData := row_captionData row,
                   r_source := Some ''local_cache'',
                   r_cached := Some True,
                   r_age_minutes :=
                     Some (Math_round_div (Date_now env - row_cachedAt row) (1000 * 60))\<rparr>),
       ?s1\<lparr>indexedDBHits := indexedDBHits ?s1 + 1,
           memoryCache := addToMemoryCache (Date_now env) vid (row_captions row)
                            (row_captionData row) (memoryCache s)\<rparr>)"
    using assms(1) miss
    by (simp add: fetchSubtitles_def truthy_def Map_has_def Map_get_def Let_def g
        record_call_def)
  show "fst (fetchSubtitles env (Some vid) title channel s) =
           Inr (empty_result
                  \<lparr>r_captions := row_captions row,
                   r_captionData := row_captionData row,
                   r_source := Some ''local_cache'',
                   r_cached := Some True,
                   r_age_minutes :=
                     Some (Math_round_div (Date_now env - row_cachedAt row) (1000 * 60))\<rparr>)"
    by (simp add: run)
  show "Map_get vid (memoryCache (snd (fetchSubtitles env (Some vid) title channel s))) =
           Some \<lparr>m_captions = row_captions row, m_captionData = row_captionData row,
                 m_timestamp = Date_now env\<rparr>"
    by (simp add: run put)
  show "calls (snd (fetchSubtitles env (Some vid) title channel s)) =
           calls s @ (if db s then [IdbGet vid] else [IdbOpen, IdbGet vid])"
    by (simp add: run record_call_def)
  show "subtitles_store (snd (fetchSubtitles env (Some vid) title channel s)) = subtitles_store s"
    by (simp add: run record_call_def)
qed

text \<open>
  C1.  With \<open>videoId\<close> in the memory cache, \<open>fetchSubtitles\<close> returns the cached payload
  with \<open>source: "memory"\<close>, \<open>cached: true\<close> and the age; the manager changes only in
  \<open>currentVideoId\<close> and the hit counter, so no collaborator is called at all.  With
  \<open>videoId\<close> absent from the memory cache and a row younger than seven days in a
  readable store, it returns the row's payload with \<open>source: "local_cache"\<close>,
  \<open>cached: true\<close>, puts that payload into the memory cache, and the only calls made
  are the IndexedDB open (when the handle was missing) and the read.
\<close>

theorem fetchSubtitles_local_hits:
  "vid \<noteq> [] \<longrightarrow>
   (\<forall>cached. Map_get vid (memoryCache s) = Some cached \<longrightarrow>
      fetchSubtitles env (Some vid) title channel s =
        (Inr (empty_result
                \<lparr>r_captions := m_captions cached,
                 r_captionData := m_captionData cached,
                 r_source := Some ''memory'',
                 r_cached := Some True,
                 r_age_seconds := Some (Math_round_div (Date_now env - m_timestamp cached) 1000),
                 r_age_minutes :=
                   Some (Math_round_div (Date_now env - m_timestamp cached) (1000 * 60))\<rparr>),
         s\<lparr>currentVideoId := Some vid, memoryHits := memoryHits s + 1\<rparr>)) \<and>
   (\<forall>row. Map_get vid (memoryCache s) = None \<and> (db s \<or> idb_open_ok env) \<and>
      idb_get_outcome env = Succeeds \<and> subtitles_store s vid = Some row \<and>
      Date_now env - row_cachedAt row < 7 * 24 * 60 * 60 * 1000 \<longrightarrow>
      fst (fetchSubtitles env (Some vid) title channel s) =
        Inr (empty_result
               \<lparr>r_captions := row_captions row,
                r_captionData := row_captionData row,
                r_source := Some ''local_cache'',
                r_cached := Some True,
                r_age_minutes :=
                  Some (Math_round_div (Date_now env - row_cachedAt row) (1000 * 60))\<rparr>) \<and>
      Map_get vid (memoryCache (snd (fetchSubtitles env (Some vid) title channel s))) =
        Some \<lparr>m_captions = row_captions row, m_captionData = row_captionData row,
              m_timestamp = Date_now env\<rparr> \<and>
      calls (snd (fetchSubtitles env (Some vid) title channel s)) =
        calls s @ (if db s then [IdbGet vid] else [IdbOpen, IdbGet vid]) \<and>
      subtitles_store (snd (fetchSubtitles env (Some vid) title channel s)) = subtitles_store s)"
proof
  assume ne: "vid \<noteq> []"
  have week: "cacheExpiry = 7 * 24 * 60 * 60 * 1000" by (simp add: cacheExpiry_def)
  have mem: "\<forall>cached. Map_get vid (memoryCache s) = Some cached \<longrightarrow>
      fetchSubtitles env (Some vid) title channel s =
        (Inr (empty_result
                \<lparr>r_captions := m_captions cached,
                 r_captionData := m_captionData cached,
                 r_source := Some ''memory'',
                 r_cached := Some True,
                 r_age_seconds := Some (Math_round_div (Date_now env - m_timestamp cached) 1000),
                 r_age_minutes :=
                   Some (Math_round_div (Date_now env - m_timestamp cached) (1000 * 60))\<rparr>),
         s\<lparr>currentVideoId := Some vid, memoryHits := memoryHits s + 1\<rparr>)"
    using fetchSubtitles_memory_hit [OF ne] by blast
  have disk: "\<forall>row. Map_get vid (memoryCache s) = None \<and> (db s \<or> idb_open_ok env) \<and>
      idb_get_outcome env = Succeeds \<and> subtitles_store s vid = Some row \<and>
      Date_now env - row_cachedAt row < 7 * 24 * 60 * 60 * 1000 \<longrightarrow>
      fst (fetchSubtitles env (Some vid) title channel s) =
        Inr (empty_result
               \<lparr>r_captions := row_captions row,
                r_captionData := row_captionData row,
                r_source := Some ''local_cache'',
                r_cached := Some True,
                r_age_minutes :=
                  Some (Math_round_div (Date_now env - row_cachedAt row) (1000 * 60))\<rparr>) \<and>
      Map_get vid (memoryCache (snd (fetchSubtitles env (Some vid) title channel s))) =
        Some \<lparr>m_captions = row_captions row, m_captionData = row_captionData row,
              m_timestamp = Date_now env\<rparr> \<and>
      calls (snd (fetchSubtitles env (Some vid) title channel s)) =
        calls s @ (if db s then [IdbGet vid] else [IdbOpen, IdbGet vid]) \<and>
      subtitles_store (snd (fetchSubtitles env (Some vid) title channel s)) = subtitles_store s"
  proof (intro allI impI, elim conjE)
    fix row
    assume miss: "Map_get vid (memoryCache s) = None" and ready: "db s \<or> idb_open_ok env"
      and g: "idb_get_outcome env = Succeeds" and row: "subtitles_store s vid = Some row"
      and young: "Date_now env - row_cachedAt row < 7 * 24 * 60 * 60 * 1000"
    from young have y: "Date_now env - row_cachedAt row < cacheExpiry" unfolding week .
    note h = fetchSubtitles_disk_hit [OF ne miss ready g row y, of title channel]
    from h(1) h(2) h(3) h(4)
    show "fst (fetchSubtitles env (Some vid) title channel s) =
        Inr (empty_result
               \<lparr>r_captions := row_captions row,
                r_captionData := row_captionData row,
                r_source := Some ''local_cache'',
                r_cached := Some True,
                r_age_minutes :=
                  Some (Math_round_div (Date_now env - row_cachedAt row) (1000 * 60))\<rparr>) \<and>
      Map_get vid (memoryCache (snd (fetchSubtitles env (Some vid) title channel s))) =
        Some \<lparr>m_captions = row_captions row, m_captionData = row_captionData row,
              m_timestamp = Date_now env\<rparr> \<and>
      calls (snd (fetchSubtitles env (Some vid) title channel s)) =
        calls s @ (if db s then [IdbGet vid] else [IdbOpen, IdbGet vid]) \<and>
      subtitles_store (snd (fetchSubtitles env (Some vid) title channel s)) = subtitles_store s"
      by blast
  qed
  from mem disk show "(\<forall>cached. Map_get vid (memoryCache s) = Some cached \<longrightarrow>
      fetchSubtitles env (Some vid) title channel s =
        (Inr (empty_result
                \<lparr>r_captions := m_captions cached,
                 r_captionData := m_captionData cached,
                 r_source := Some ''memory'',
                 r_cached := Some True,
                 r_age_seconds := Some (Math_round_div (Date_now env - m_timestamp cached) 1000),
                 r_age_minutes :=
                   Some (Math_round_div (Date_now env - m_timestamp cached) (1000 * 60))\<rparr>),
         s\<lparr>currentVideoId := Some vid, memoryHits := memoryHits s + 1\<rparr>)) \<and>
   (\<forall>row. Map_get vid (memoryCache s) = None \<and> (db s \<or> idb_open_ok env) \<and>
      idb_get_outcome env = Succeeds \<and> subtitles_store s vid = Some row \<and>
      Date_now env - row_cachedAt row < 7 * 24 * 60 * 60 * 1000 \<longrightarrow>
      fst (fetchSubtitles env (Some vid) title channel s) =
        Inr (empty_result
               \<lparr>r_captions := row_captions row,
                r_captionData := row_captionData row,
                r_source := Some ''local_cache'',
                r_cached := Some True,
                r_age_minutes :=
                  Some (Math_round_div (Date_now env - row_cachedAt row) (1000 * 60))\<rparr>) \<and>
      Map_get vid (memoryCache (snd (fetchSubtitles env (Some vid) title channel s))) =
        Some \<lparr>m_captions = row_captions row, m_captionData = row_captionData row,
              m_timestamp = Date_now env\<rparr> \<and>
      calls (snd (fetchSubtitles env (Some vid) title channel s)) =
        calls s @ (if db s then [IdbGet vid] else [IdbOpen, IdbGet vid]) \<and>
      subtitles_store (snd (fetchSubtitles env (Some vid) title channel s)) = subtitles_store s)"
    by blast
qed

theorem fetchSubtitles_local_hits_witness:
  "fst (fetchSubtitles scenario_env (Some ''abc123'') None None warm_manager) =
     Inr (empty_result
            \<lparr>r_captions := CaptionArray [], r_captionData := None,
             r_source := Some ''memory'', r_cached := Some True,
             r_age_seconds := Some 90, r_age_minutes := Some 2\<rparr>) \<and>
   calls (snd (fetchSubtitles scenario_env (Some ''abc123'') None None warm_manager)) = [] \<and>
   fst (fetchSubtitles scenario_env (Some ''abc123'') None None (new_SubtitleManager fresh_store)) =
     Inr (empty_result
            \<lparr>r_captions := CaptionArray [], r_captionData := None,
             r_source := Some ''local_cache'', r_cached := Some True,
             r_age_minutes := Some 10080\<rparr>) \<and>
   Map_get ''abc123'' (memoryCache (snd (fetchSubtitles scenario_env (Some ''abc123'') None None
       (new_SubtitleManager fresh_store)))) =
     Some \<lparr>m_captions = CaptionArray [], m_captionData = None, m_timestamp = 1700000000000\<rparr> \<and>
   calls (snd (fetchSubtitles scenario_env (Some ''abc123'') None None
       (new_SubtitleManager fresh_store))) = [IdbOpen, IdbGet ''abc123'']"
proof -
  let ?e = "\<lparr>m_captions = CaptionArray [], m_captionData = None :: caption_data option,
             m_timestamp = 1700000000000 - 90000\<rparr>"
  let ?cold = "new_SubtitleManager fresh_store"
  have ne: "''abc123'' \<noteq> []" by simp
  have now: "Date_now scenario_env = 1700000000000" by (simp add: scenario_env_def)
  have hit: "Map_get ''abc123'' (memoryCache warm_manager) = Some ?e"
    by (simp add: warm_manager_def Map_get_def new_SubtitleManager_def)
  from fetchSubtitles_local_hits
         [where vid = "''abc123''" and s = warm_manager and env = scenario_env
            and title = None and channel = None] ne hit
  have "fetchSubtitles scenario_env (Some ''abc123'') None None warm_manager =
      (Inr (empty_result
                \<lparr>r_captions := m_captions ?e,
                 r_captionData := m_captionData ?e,
                 r_source := Some ''memory'',
                 r_cached := Some True,
                 r_age_seconds := Some (Math_round_div (Date_now scenario_env - m_timestamp ?e) 1000),
                 r_age_minutes :=
                   Some (Math_round_div (Date_now scenario_env - m_timestamp ?e) (1000 * 60))\<rparr>),
       warm_manager\<lparr>currentVideoId := Some ''abc123'',
                    memoryHits := memoryHits warm_manager + 1\<rparr>)"
    by blast
  then have a: "fst (fetchSubtitles scenario_env (Some ''abc123'') None None warm_manager) =
     Inr (empty_result
            \<lparr>r_captions := CaptionArray [], r_captionData := None,
             r_source := Some ''memory'', r_cached := Some True,
             r_age_seconds := Some 90, r_age_minutes := Some 2\<rparr>)"
    and b: "calls (snd (fetchSubtitles scenario_env (Some ''abc123'') None None warm_manager)) = []"
    by (simp_all add: now Math_round_div_def warm_manager_def new_SubtitleManager_def)
  have prem: "Map_get ''abc123'' (memoryCache ?cold) = None \<and> (db ?cold \<or> idb_open_ok scenario_env) \<and>
      idb_get_outcome scenario_env = Succeeds \<and> subtitles_store ?cold ''abc123'' = Some fresh_row \<and>
      Date_now scenario_env - row_cachedAt fresh_row < 7 * 24 * 60 * 60 * 1000"
    by (simp add: new_SubtitleManager_def Map_get_def scenario_env_def fresh_store_def
        fresh_row_def week_old_row_def)
  from fetchSubtitles_local_hits
         [where vid = "''abc123''" and s = ?cold and env = scenario_env
            and title = None and channel = None] ne prem
  have c: "fst (fetchSubtitles scenario_env (Some ''abc123'') None None ?cold) =
        Inr (empty_result
               \<lparr>r_captions := row_captions fresh_row,
                r_captionData := row_captionData fresh_row,
                r_source := Some ''local_cache'',
                r_cached := Some True,
                r_age_minutes :=
                  Some (Math_round_div (Date_now scenario_env - row_cachedAt fresh_row) (1000 * 60))\<rparr>)"
    and d: "Map_get ''abc123'' (memoryCache (snd (fetchSubtitles scenario_env (Some ''abc123'')
          None None ?cold))) =
        Some \<lparr>m_captions = row_captions fresh_row, m_captionData = row_captionData fresh_row,
              m_timestamp = Date_now scenario_env\<rparr>"
    and e: "calls (snd (fetchSubtitles scenario_env (Some ''abc123'') None None ?cold)) =
        calls ?cold @ (if db ?cold then [IdbGet ''abc123''] else [IdbOpen, IdbGet ''abc123''])"
    by blast+
  have row: "row_captions fresh_row = CaptionArray []" "row_captionData fresh_row = None"
    "row_cachedAt fresh_row = 1700000000000 - 604799999"
    by (simp_all add: fresh_row_def week_old_row_def)
  from c have c': "fst (fetchSubtitles scenario_env (Some ''abc123'') None None ?cold) =
     Inr (empty_result
            \<lparr>r_captions := CaptionArray [], r_captionData := None,
             r_source := Some ''local_cache'', r_cached := Some True,
             r_age_minutes := Some 10080\<rparr>)"
    by (simp add: row now Math_round_div_def)
  from d have d': "Map_get ''abc123'' (memoryCache (snd (fetchSubtitles scenario_env
        (Some ''abc123'') None None ?cold))) =
     Some \<lparr>m_captions = CaptionArray [], m_captionData = None, m_timestamp = 1700000000000\<rparr>"
    by (simp add: row now)
  from e have e': "calls (snd (fetchSubtitles scenario_env (Some ''abc123'') None None ?cold))
      = [IdbOpen, IdbGet ''abc123'']"
    by (simp add: new_SubtitleManager_def)
  from a b c' d' e' show ?thesis by blast
qed

subsection \<open>The orchestrator after a double local miss\<close>

text \<open>The run from the remote decision on, for a \<open>videoId\<close> that misses both local
  tiers and the remote cache.\<close>

lemma fetchSubtitles_remote_miss:
  assumes "vid \<noteq> []" and "Map_get vid (memoryCache s) = None"
    and "getFromIndexedDB env vid (s\<lparr>currentVideoId := Some vid\<rparr>) = (Inr None, s1)"
    and "checkCacheAndLimits env vid s1 = (d, s2)"
    and "\<not> d_cached d"
  shows "fetchSubtitles env (Some vid) title channel s =
     (if \<not> d_allowed d
      then (Inr (empty_result
                   \<lparr>r_error := Some (''Rate limited. Wait '' @ waitMin d @ '' minutes.''),
                    r_wait_time := d_waitTime d,
                    r_usage := d_usage d\<rparr>), s2)
      else
        (case fetchFromYtDlp env vid (s2\<lparr>misses := misses s2 + 1\<rparr>) of
           (Inl e, s4) \<Rightarrow> (Inl e, s4)
         | (Inr fetchResult, s4) \<Rightarrow>
             if \<not> fr_success fetchResult
             then (Inr (empty_result
                          \<lparr>r_error := Some ''Failed to fetch subtitles'',
                           r_cached := Some False\<rparr>), s4)
             else
               (Inr (fresh_result fetchResult
                       (case fr_captionData fetchResult of
                          None \<Rightarrow> ''unknown''
                        | Some cd \<Rightarrow> or_else (cd_source cd) ''unknown'')),
                record_call
                  (LogFetch vid title True
                     (case fr_captionData fetchResult of
                        None \<Rightarrow> ''unknown''
                      | Some cd \<Rightarrow> or_else (cd_source cd) ''unknown'') False)
                  (record_call (StoreInServerCache vid title channel fetchResult)
                     (snd (saveToIndexedDB env vid fetchResult
                             (s4\<lparr>memoryCache :=
                                   addToMemoryCache (Date_now env) vid
                                     (fr_captions fetchResult)
                                     (fr_captionData fetchResult)
                                     (memoryCache s4)\<rparr>)))))))"
  using assms
  by (simp add: fetchSubtitles_def truthy_def Map_has_def Map_get_def Let_def
      split: prod.splits sum.splits)

lemma local_miss_frame:
  assumes g: "getFromIndexedDB env vid (s\<lparr>currentVideoId := Some vid\<rparr>) = (r, s1)"
  shows "memoryCache s1 = memoryCache s"
    and "\<exists>new. calls s1 = calls s @ new \<and> list_all is_idb_read new"
    and "subtitles_store s1 = subtitles_store s \<or>
         (\<exists>row. subtitles_store s vid = Some row \<and>
            cacheExpiry \<le> Date_now env - row_cachedAt row \<and>
            subtitles_store s1 = (subtitles_store s)(vid := None))"
proof -
  let ?s0 = "s\<lparr>currentVideoId := Some vid\<rparr>"
  have s1: "s1 = snd (getFromIndexedDB env vid ?s0)" by (simp add: g)
  show "memoryCache s1 = memoryCache s"
    using getFromIndexedDB_memoryCache [of env vid ?s0] by (simp add: s1)
  show "\<exists>new. calls s1 = calls s @ new \<and> list_all is_idb_read new"
    using getFromIndexedDB_calls [of env vid ?s0] by (simp add: s1)
  show "subtitles_store s1 = subtitles_store s \<or>
         (\<exists>row. subtitles_store s vid = Some row \<and>
            cacheExpiry \<le> Date_now env - row_cachedAt row \<and>
            subtitles_store s1 = (subtitles_store s)(vid := None))"
    using getFromIndexedDB_store [of env vid ?s0] by (simp add: s1)
qed

lemma calls_extend:
  assumes "\<exists>new. calls s1 = calls s @ new \<and> list_all P new"
    and "appends Q s1 s2" and "\<And>e. P e \<Longrightarrow> R e" and "\<And>e. Q e \<Longrightarrow> R e"
  shows "\<exists>new. calls s2 = calls s @ new \<and> list_all R new"
proof -
  from assms(1) obtain n1 where 1: "calls s1 = calls s @ n1" and p: "list_all P n1" by blast
  from assms(2) obtain n2 where 2: "calls s2 = calls s1 @ n2" and q: "list_all Q n2"
    by (auto simp: appends_def)
  have "calls s2 = calls s @ (n1 @ n2)" by (simp add: 1 2)
  moreover have "list_all R (n1 @ n2)"
    using p q assms(3,4) by (auto simp: list_all_iff)
  ultimately show ?thesis by blast
qed

lemma fetchSubtitles_rate_limited:
  assumes ne: "vid \<noteq> []" and miss: "Map_get vid (memoryCache s) = None"
    and g: "fst (getFromIndexedDB env vid (s\<lparr>currentVideoId := Some vid\<rparr>)) = Inr None"
    and d: "fst (checkCacheAndLimits env vid
                   (snd (getFromIndexedDB env vid (s\<lparr>currentVideoId := Some vid\<rparr>)))) = d"
    and nc: "\<not> d_cached d" and na: "\<not> d_allowed d"
  shows "fst (fetchSubtitles env (Some vid) title channel s) =
           Inr (empty_result
                  \<lparr>r_error := Some (''Rate limited. Wait '' @ waitMin d @ '' minutes.''),
                   r_wait_time := d_waitTime d,
                   r_usage := d_usage d\<rparr>)"
    and "\<exists>new. calls (snd (fetchSubtitles env (Some vid) title channel s)) = calls s @ new \<and>
           list_all (\<lambda>e. \<not> is_source_call e \<and> \<not> is_usage_log e \<and> \<not> is_cache_write e) new"
    and "memoryCache (snd (fetchSubtitles env (Some vid) title channel s)) = memoryCache s"
proof -
  let ?P = "\<lambda>e. \<not> is_source_call e \<and> \<not> is_usage_log e \<and> \<not> is_cache_write e"
  let ?s1 = "snd (getFromIndexedDB env vid (s\<lparr>currentVideoId := Some vid\<rparr>))"
  let ?s2 = "snd (checkCacheAndLimits env vid ?s1)"
  have G: "getFromIndexedDB env vid (s\<lparr>currentVideoId := Some vid\<rparr>) = (Inr None, ?s1)"
    using g by (simp add: prod_eq_iff)
  have C: "checkCacheAndLimits env vid ?s1 = (d, ?s2)"
    using d by (simp add: prod_eq_iff)
  have run: "fetchSubtitles env (Some vid) title channel s =
      (Inr (empty_result
                  \<lparr>r_error := Some (''Rate limited. Wait '' @ waitMin d @ '' minutes.''),
                   r_wait_time := d_waitTime d,
                   r_usage := d_usage d\<rparr>), ?s2)"
    using fetchSubtitles_remote_miss [OF ne miss G C nc, of title channel] na by simp
  show "fst (fetchSubtitles env (Some vid) title channel s) =
           Inr (empty_result
                  \<lparr>r_error := Some (''Rate limited. Wait '' @ waitMin d @ '' minutes.''),
                   r_wait_time := d_waitTime d,
                   r_usage := d_usage d\<rparr>)"
    by (simp add: run)
  have a: "appends ?P ?s1 ?s2"
    by (rule checkCacheAndLimits_appends) (simp_all add: appends_refl)
  have idb: "\<And>e. is_idb_read e \<Longrightarrow> ?P e"
  proof -
    fix e assume "is_idb_read e" then show "?P e" by (cases e) simp_all
  qed
  from calls_extend [OF local_miss_frame(2) [OF G] a idb]
  show "\<exists>new. calls (snd (fetchSubtitles env (Some vid) title channel s)) = calls s @ new \<and>
           list_all ?P new"
    by (simp add: run)
  show "memoryCache (snd (fetchSubtitles env (Some vid) title channel s)) = memoryCache s"
    using appends_frame(1) [OF a] local_miss_frame(1) [OF G] by (simp add: run)
qed

lemma waitMin_300: "d_waitTime d = Has 300 \<Longrightarrow> waitMin d = ''5''"
  by (simp add: waitMin_def Math_ceil_div_def show_int_def show_nat.simps digit_char_def)

text \<open>
  C3.  When \<open>videoId\<close> misses both local tiers and the remote decision is a miss with
  \<open>allowed\<close> falsy, \<open>fetchSubtitles\<close> returns an error result that carries the
  decision's \<open>waitTime\<close> as \<open>wait_time\<close> and its \<open>usage\<close>, with the wait in minutes in
  the message; none of the calls it made is a call of the source fetcher, a usage log
  or a cache write.  For \<open>waitTime: 300\<close> the message names 5 minutes.
\<close>

theorem fetchSubtitles_quota_denied:
  "vid \<noteq> [] \<and> Map_get vid (memoryCache s) = None \<and>
   fst (getFromIndexedDB env vid (s\<lparr>currentVideoId := Some vid\<rparr>)) = Inr None \<and>
   fst (checkCacheAndLimits env vid
          (snd (getFromIndexedDB env vid (s\<lparr>currentVideoId := Some vid\<rparr>)))) = d \<and>
   \<not> d_cached d \<and> \<not> d_allowed d \<longrightarrow>
     fst (fetchSubtitles env (Some vid) title channel s) =
       Inr (empty_result
              \<lparr>r_error := Some (''Rate limited. Wait '' @ waitMin d @ '' minutes.''),
               r_wait_time := d_waitTime d,
               r_usage := d_usage d\<rparr>) \<and>
     (\<exists>new. calls (snd (fetchSubtitles env (Some vid) title channel s)) = calls s @ new \<and>
        list_all (\<lambda>e. \<not> is_source_call e \<and> \<not> is_usage_log e \<and> \<not> is_cache_write e) new) \<and>
     (d_waitTime d = Has 300 \<longrightarrow>
        r_error (projr (fst (fetchSubtitles env (Some vid) title channel s))) =
          Some ''Rate limited. Wait 5 minutes.'' \<and>
        r_wait_time (projr (fst (fetchSubtitles env (Some vid) title channel s))) = Has 300)"
proof (intro impI, elim conjE)
  assume ne: "vid \<noteq> []" and miss: "Map_get vid (memoryCache s) = None"
    and g: "fst (getFromIndexedDB env vid (s\<lparr>currentVideoId := Some vid\<rparr>)) = Inr None"
    and d: "fst (checkCacheAndLimits env vid
                   (snd (getFromIndexedDB env vid (s\<lparr>currentVideoId := Some vid\<rparr>)))) = d"
    and nc: "\<not> d_cached d" and na: "\<not> d_allowed d"
  note h = fetchSubtitles_rate_limited [OF ne miss g d nc na, of title channel]
  have five: "d_waitTime d = Has 300 \<longrightarrow>
        r_error (projr (fst (fetchSubtitles env (Some vid) title channel s))) =
          Some ''Rate limited. Wait 5 minutes.'' \<and>
        r_wait_time (projr (fst (fetchSubtitles env (Some vid) title channel s))) = Has 300"
    by (simp add: h(1) waitMin_300 empty_result_def)
  from h(1) h(2) five
  show "fst (fetchSubtitles env (Some vid) title channel s) =
       Inr (empty_result
              \<lparr>r_error := Some (''Rate limited. Wait '' @ waitMin d @ '' minutes.''),
               r_wait_time := d_waitTime d,
               r_usage := d_usage d\<rparr>) \<and>
     (\<exists>new. calls (snd (fetchSubtitles env (Some vid) title channel s)) = calls s @ new \<and>
        list_all (\<lambda>e. \<not> is_source_call e \<and> \<not> is_usage_log e \<and> \<not> is_cache_write e) new) \<and>
     (d_waitTime d = Has 300 \<longrightarrow>
        r_error (projr (fst (fetchSubtitles env (Some vid) title channel s))) =
          Some ''Rate limited. Wait 5 minutes.'' \<and>
        r_wait_time (projr (fst (fetchSubtitles env (Some vid) title channel s))) = Has 300)"
    by blast
qed

lemma denied_run_facts:
  "fst (getFromIndexedDB denied_env ''abc123''
          ((new_SubtitleManager Map.empty)\<lparr>currentVideoId := Some ''abc123''\<rparr>)) = Inr None"
  "fst (checkCacheAndLimits denied_env ''abc123''
          (snd (getFromIndexedDB denied_env ''abc123''
                  ((new_SubtitleManager Map.empty)\<lparr>currentVideoId := Some ''abc123''\<rparr>))))
     = denied_decision"
  by (simp_all add: getFromIndexedDB_def initIndexedDB_def checkCacheAndLimits_def
      getAuthToken_def record_call_def truthy_def response_ok_def Let_def
      denied_env_def scenario_env_def new_SubtitleManager_def)

theorem fetchSubtitles_quota_denied_witness:
  "\<not> d_cached denied_decision \<and> \<not> d_allowed denied_decision \<and>
   d_waitTime denied_decision = Has 300 \<and>
   fst (fetchSubtitles denied_env (Some ''abc123'') None None (new_SubtitleManager Map.empty)) =
     Inr (empty_result
            \<lparr>r_error := Some ''Rate limited. Wait 5 minutes.'',
             r_wait_time := Has 300,
             r_usage := Some \<lparr>u_burst = ''5/5'', u_hourly = ''5/20'', u_daily = ''5/100''\<rparr>\<rparr>) \<and>
   calls (snd (fetchSubtitles denied_env (Some ''abc123'') None None
                 (new_SubtitleManager Map.empty))) =
     [IdbOpen, IdbGet ''abc123'', CheckCacheAndLimits ''abc123'', StorageGet ''vocabToken'',
      Request FetchOrCacheEndpoint]"
proof -
  let ?s = "new_SubtitleManager Map.empty"
  have dd: "\<not> d_cached denied_decision" "\<not> d_allowed denied_decision"
    "d_waitTime denied_decision = Has 300"
    "d_usage denied_decision = Some \<lparr>u_burst = ''5/5'', u_hourly = ''5/20'', u_daily = ''5/100''\<rparr>"
    by (simp_all add: denied_decision_def)
  have prem: "''abc123'' \<noteq> [] \<and> Map_get ''abc123'' (memoryCache ?s) = None \<and>
     fst (getFromIndexedDB denied_env ''abc123'' (?s\<lparr>currentVideoId := Some ''abc123''\<rparr>))
       = Inr None \<and>
     fst (checkCacheAndLimits denied_env ''abc123''
            (snd (getFromIndexedDB denied_env ''abc123''
                    (?s\<lparr>currentVideoId := Some ''abc123''\<rparr>)))) = denied_decision \<and>
     \<not> d_cached denied_decision \<and> \<not> d_allowed denied_decision"
    using denied_run_facts dd by (simp add: Map_get_def new_SubtitleManager_def)
  from fetchSubtitles_quota_denied
         [where vid = "''abc123''" and s = ?s and env = denied_env and d = denied_decision
            and title = None and channel = None] prem
  have res: "fst (fetchSubtitles denied_env (Some ''abc123'') None None ?s) =
       Inr (empty_result
              \<lparr>r_error := Some (''Rate limited. Wait '' @ waitMin denied_decision @ '' minutes.''),
               r_wait_time := d_waitTime denied_decision,
               r_usage := d_usage denied_decision\<rparr>)"
    and five: "d_waitTime denied_decision = Has 300 \<longrightarrow>
        r_error (projr (fst (fetchSubtitles denied_env (Some ''abc123'') None None ?s))) =
          Some ''Rate limited. Wait 5 minutes.''"
    by blast+
  from five dd(3) res have msg: "''Rate limited. Wait '' @ waitMin denied_decision @ '' minutes.''
      = ''Rate limited. Wait 5 minutes.''"
    by (simp add: empty_result_def)
  from res have a: "fst (fetchSubtitles denied_env (Some ''abc123'') None None ?s) =
     Inr (empty_result
            \<lparr>r_error := Some ''Rate limited. Wait 5 minutes.'',
             r_wait_time := Has 300,
             r_usage := Some \<lparr>u_burst = ''5/5'', u_hourly = ''5/20'', u_daily = ''5/100''\<rparr>\<rparr>)"
    unfolding msg dd(3) dd(4) .
  have b: "calls (snd (fetchSubtitles denied_env (Some ''abc123'') None None ?s)) =
     [IdbOpen, IdbGet ''abc123'', CheckCacheAndLimits ''abc123'', StorageGet ''vocabToken'',
      Request FetchOrCacheEndpoint]"
    by (simp add: fetchSubtitles_def getFromIndexedDB_def initIndexedDB_def
        checkCacheAndLimits_def getAuthToken_def record_call_def truthy_def response_ok_def
        Let_def Map_has_def Map_get_def denied_env_def scenario_env_def new_SubtitleManager_def
        denied_decision_def)
  from dd(1,2,3) a b show ?thesis by blast
qed

subsection \<open>The error results of the orchestrator\<close>

lemma fetchSubtitles_no_video_id:
  "\<not> truthy videoId \<Longrightarrow> fetchSubtitles env videoId title channel s = (Inr no_video_id, s)"
  by (simp add: fetchSubtitles_def)

lemma fetchSubtitles_disk_raise:
  assumes "vid \<noteq> []" and "Map_get vid (memoryCache s) = None"
    and "getFromIndexedDB env vid (s\<lparr>currentVideoId := Some vid\<rparr>) = (Inl e, s1)"
  shows "fetchSubtitles env (Some vid) title channel s = (Inl e, s1)"
  using assms
  by (simp add: fetchSubtitles_def truthy_def Map_has_def Map_get_def Let_def)


lemma fetchSubtitles_disk_hit_shape:
  assumes "vid \<noteq> []" and "Map_get vid (memoryCache s) = None"
    and "getFromIndexedDB env vid (s\<lparr>currentVideoId := Some vid\<rparr>) = (Inr (Some (row, age)), s1)"
  shows "fst (fetchSubtitles env (Some vid) title channel s) =
           Inr (empty_result
                  \<lparr>r_captions := row_captions row,
                   r_captionData := row_captionData row,
                   r_source := Some ''local_cache'',
                   r_cached := Some True,
                   r_age_minutes := Some (Math_round_div age (1000 * 60))\<rparr>)"
  using assms
  by (simp add: fetchSubtitles_def truthy_def Map_has_def Map_get_def Let_def)

lemma fetchSubtitles_server_hit_shape:
  assumes "vid \<noteq> []" and "Map_get vid (memoryCache s) = None"
    and "getFromIndexedDB env vid (s\<lparr>currentVideoId := Some vid\<rparr>) = (Inr None, s1)"
    and "checkCacheAndLimits env vid s1 = (d, s2)"
    and "d_cached d"
  shows "fst (fetchSubtitles env (Some vid) title channel s) =
           (case d_subtitles d of
              None \<Rightarrow> Inl TypeError
            | Some subtitles \<Rightarrow>
                Inr (empty_result
                       \<lparr>r_captions := subtitles_captions subtitles,
                        r_captionData := Some \<lparr>cd_language = Some (subtitles_language subtitles),
                                                cd_type = None,
                                                cd_source = Some ''server_cache''\<rparr>,
                        r_source := Some ''server_cache'',
                        r_cached := Some True,
                        r_hit_count := d_hit_count d,
                        r_age_days := d_age_days d\<rparr>))"
  using assms
  by (simp add: fetchSubtitles_def truthy_def Map_has_def Map_get_def Let_def
      split: option.splits)

text \<open>An error result comes from the quota gate or from a failed source fetch, and the
  manager is then the one left by the remote check or by the source fetcher.\<close>

lemma fetchSubtitles_error_origin:
  assumes run: "fetchSubtitles env (Some vid) title channel s = (Inr r, s')"
    and err: "r_error r \<noteq> None" and ne: "vid \<noteq> []"
  shows "\<exists>s1 s2. getFromIndexedDB env vid (s\<lparr>currentVideoId := Some vid\<rparr>) = (Inr None, s1) \<and>
           Map_get vid (memoryCache s) = None \<and>
           s2 = snd (checkCacheAndLimits env vid s1) \<and>
           (s' = s2 \<or> s' = snd (fetchFromYtDlp env vid (s2\<lparr>misses := misses s2 + 1\<rparr>)))"
proof -
  have miss: "Map_get vid (memoryCache s) = None"
  proof (cases "Map_get vid (memoryCache s)")
    case None then show ?thesis .
  next
    case (Some cached)
    from fetchSubtitles_memory_hit [OF ne Some, of env title channel] run
    have "r_error r = None" by (auto simp: empty_result_def)
    with err show ?thesis by simp
  qed
  obtain g s1 where G: "getFromIndexedDB env vid (s\<lparr>currentVideoId := Some vid\<rparr>) = (g, s1)"
    by (cases "getFromIndexedDB env vid (s\<lparr>currentVideoId := Some vid\<rparr>)")
  have g: "g = Inr None"
  proof (cases g)
    case (Inl e)
    from fetchSubtitles_disk_raise [OF ne miss G [unfolded Inl], of title channel] run
    show ?thesis by simp
  next
    case (Inr found)
    show ?thesis
    proof (cases found)
      case None
      with Inr show ?thesis by simp
    next
      case (Some hit)
      obtain row age where hit: "hit = (row, age)" by (cases hit)
      from fetchSubtitles_disk_hit_shape [OF ne miss G [unfolded Inr Some hit], of title channel]
        run
      have "r_error r = None" by (auto simp: empty_result_def)
      with err show ?thesis by simp
    qed
  qed
  obtain d s2 where C: "checkCacheAndLimits env vid s1 = (d, s2)"
    by (cases "checkCacheAndLimits env vid s1")
  have nc: "\<not> d_cached d"
  proof
    assume "d_cached d"
    from fetchSubtitles_server_hit_shape [OF ne miss G [unfolded g] C this, of title channel]
      run
    have "r_error r = None"
      by (cases "d_subtitles d") (auto simp: empty_result_def)
    with err show False by simp
  qed
  note shape = fetchSubtitles_remote_miss [OF ne miss G [unfolded g] C nc, of title channel]
  have "s' = s2 \<or> s' = snd (fetchFromYtDlp env vid (s2\<lparr>misses := misses s2 + 1\<rparr>))"
  proof (cases "d_allowed d")
    case False
    with shape run show ?thesis by simp
  next
    case True
    obtain f s4 where F: "fetchFromYtDlp env vid (s2\<lparr>misses := misses s2 + 1\<rparr>) = (f, s4)"
      by (cases "fetchFromYtDlp env vid (s2\<lparr>misses := misses s2 + 1\<rparr>)")
    show ?thesis
    proof (cases f)
      case (Inl e)
      with shape run True F show ?thesis by simp
    next
      case (Inr fetchResult)
      show ?thesis
      proof (cases "fr_success fetchResult")
        case False
        with shape run True F Inr show ?thesis by simp
      next
        case ok: True
        with shape run True F Inr
        have "r = fresh_result fetchResult
                (case fr_captionData fetchResult of
                   None \<Rightarrow> ''unknown''
                 | Some cd \<Rightarrow> or_else (cd_source cd) ''unknown'')"
          by simp
        then have "r_error r = None" by (simp add: fresh_result_def empty_result_def)
        with err show ?thesis by simp
      qed
    qed
  qed
  with G g miss C show ?thesis by auto
qed

lemma fetchSubtitles_error_frame:
  assumes run: "fetchSubtitles env (Some vid) title channel s = (Inr r, s')"
    and err: "r_error r \<noteq> None" and ne: "vid \<noteq> []"
  shows "memoryCache s' = memoryCache s"
    and "\<exists>new. calls s' = calls s @ new \<and>
           list_all (\<lambda>e. \<not> is_cache_write e) new"
    and "subtitles_store s' = subtitles_store s \<or>
         (\<exists>row. subtitles_store s vid = Some row \<and>
            cacheExpiry \<le> Date_now env - row_cachedAt row \<and>
            subtitles_store s' = (subtitles_store s)(vid := None))"
proof -
  let ?P = "\<lambda>e. \<not> is_cache_write e"
  from fetchSubtitles_error_origin [OF run err ne]
  obtain s1 s2 where G: "getFromIndexedDB env vid (s\<lparr>currentVideoId := Some vid\<rparr>) = (Inr None, s1)"
    and s2: "s2 = snd (checkCacheAndLimits env vid s1)"
    and s': "s' = s2 \<or> s' = snd (fetchFromYtDlp env vid (s2\<lparr>misses := misses s2 + 1\<rparr>))"
    by blast
  have a12: "appends ?P s1 s2"
    unfolding s2 by (rule checkCacheAndLimits_appends) (simp_all add: appends_refl)
  have src: "\<And>e. is_source_call e \<Longrightarrow> ?P e"
  proof -
    fix e assume "is_source_call e" then show "?P e" by (cases e) simp_all
  qed
  let ?m = "s2\<lparr>misses := misses s2 + 1\<rparr>"
  have a34: "appends ?P ?m (snd (fetchFromYtDlp env vid ?m))"
    by (rule fetchFromYtDlp_appends) (simp_all add: appends_refl src)
  have idb: "\<And>e. is_idb_read e \<Longrightarrow> ?P e"
  proof -
    fix e assume "is_idb_read e" then show "?P e" by (cases e) simp_all
  qed
  note f1 = local_miss_frame [OF G]
  have c2: "\<exists>new. calls s2 = calls s @ new \<and> list_all ?P new"
    by (rule calls_extend [OF f1(2) a12 idb])
  have c4: "\<exists>new. calls (snd (fetchFromYtDlp env vid ?m)) = calls s @ new \<and> list_all ?P new"
  proof -
    from c2 have pre: "\<exists>new. calls ?m = calls s @ new \<and> list_all ?P new" by simp
    show ?thesis by (rule calls_extend [OF pre a34]) simp_all
  qed
  have m2: "memoryCache s2 = memoryCache s" "subtitles_store s2 = subtitles_store s1"
    using appends_frame(1,2) [OF a12] f1(1) by simp_all
  have m4: "memoryCache (snd (fetchFromYtDlp env vid ?m)) = memoryCache s"
    "subtitles_store (snd (fetchFromYtDlp env vid ?m)) = subtitles_store s1"
    using appends_frame(1,2) [OF a34] m2 by simp_all
  from s' m2 m4 show "memoryCache s' = memoryCache s" by auto
  from s' c2 c4 show "\<exists>new. calls s' = calls s @ new \<and> list_all ?P new" by auto
  from s' m2 m4 have "subtitles_store s' = subtitles_store s1" by auto
  with f1(3) show "subtitles_store s' = subtitles_store s \<or>
         (\<exists>row. subtitles_store s vid = Some row \<and>
            cacheExpiry \<le> Date_now env - row_cachedAt row \<and>
            subtitles_store s' = (subtitles_store s)(vid := None))"
    by simp
qed

text \<open>
  C10, as the code has it.  A missing or empty \<open>videoId\<close> is answered with
  \<open>{error: 'No video ID provided', cached: false}\<close> and the manager is untouched.  On
  every call that returns an error result the memory cache is unchanged, no call made
  is a write to the persistent cache, and the persistent store is unchanged except that
  the read of the persistent tier may have deleted the row of this \<open>videoId\<close> when that
  row had expired.
\<close>

theorem fetchSubtitles_error_results:
  "(\<not> truthy videoId \<longrightarrow>
      fetchSubtitles env videoId title channel s =
        (Inr (empty_result\<lparr>r_error := Some ''No video ID provided'', r_cached := Some False\<rparr>),
         s)) \<and>
   (fetchSubtitles env videoId title channel s = (Inr r, s') \<and> r_error r \<noteq> None \<longrightarrow>
      memoryCache s' = memoryCache s \<and>
      (\<exists>new. calls s' = calls s @ new \<and>
         list_all (\<lambda>e. \<not> is_cache_write e) new) \<and>
      (subtitles_store s' = subtitles_store s \<or>
       (\<exists>vid row. videoId = Some vid \<and> subtitles_store s vid = Some row \<and>
          7 * 24 * 60 * 60 * 1000 \<le> Date_now env - row_cachedAt row \<and>
          subtitles_store s' = (subtitles_store s)(vid := None))))"
proof -
  have week: "cacheExpiry = 7 * 24 * 60 * 60 * 1000" by (simp add: cacheExpiry_def)
  have a: "\<not> truthy videoId \<longrightarrow>
      fetchSubtitles env videoId title channel s =
        (Inr (empty_result\<lparr>r_error := Some ''No video ID provided'', r_cached := Some False\<rparr>),
         s)"
    using fetchSubtitles_no_video_id [of videoId env title channel s]
    by (simp add: no_video_id_def)
  have b: "fetchSubtitles env videoId title channel s = (Inr r, s') \<and> r_error r \<noteq> None \<longrightarrow>
      memoryCache s' = memoryCache s \<and>
      (\<exists>new. calls s' = calls s @ new \<and>
         list_all (\<lambda>e. \<not> is_cache_write e) new) \<and>
      (subtitles_store s' = subtitles_store s \<or>
       (\<exists>vid row. videoId = Some vid \<and> subtitles_store s vid = Some row \<and>
          7 * 24 * 60 * 60 * 1000 \<le> Date_now env - row_cachedAt row \<and>
          subtitles_store s' = (subtitles_store s)(vid := None)))"
  proof (intro impI, elim conjE)
    assume run: "fetchSubtitles env videoId title channel s = (Inr r, s')"
      and err: "r_error r \<noteq> None"
    show "memoryCache s' = memoryCache s \<and>
      (\<exists>new. calls s' = calls s @ new \<and>
         list_all (\<lambda>e. \<not> is_cache_write e) new) \<and>
      (subtitles_store s' = subtitles_store s \<or>
       (\<exists>vid row. videoId = Some vid \<and> subtitles_store s vid = Some row \<and>
          7 * 24 * 60 * 60 * 1000 \<le> Date_now env - row_cachedAt row \<and>
          subtitles_store s' = (subtitles_store s)(vid := None)))"
    proof (cases "truthy videoId")
      case False
      from fetchSubtitles_no_video_id [OF False, of env title channel s] run
      have same: "s' = s" by simp
      have "calls s = calls s @ [] \<and>
          list_all (\<lambda>e. \<not> is_cache_write e) []"
        by simp
      then have "\<exists>new. calls s = calls s @ new \<and>
          list_all (\<lambda>e. \<not> is_cache_write e) new"
        by (rule exI)
      then show ?thesis by (simp add: same)
    next
      case True
      then obtain vid where v: "videoId = Some vid" and ne: "vid \<noteq> []"
        by (cases videoId) (auto simp: truthy_def)
      note f = fetchSubtitles_error_frame [OF run [unfolded v] err ne]
      from f(3) have "subtitles_store s' = subtitles_store s \<or>
       (\<exists>vid row. videoId = Some vid \<and> subtitles_store s vid = Some row \<and>
          7 * 24 * 60 * 60 * 1000 \<le> Date_now env - row_cachedAt row \<and>
          subtitles_store s' = (subtitles_store s)(vid := None))"
        unfolding week using v by blast
      with f(1) f(2) show ?thesis by blast
    qed
  qed
  from a b show ?thesis by blast
qed

lemma denied_stale_run:
  "fst (fetchSubtitles denied_env (Some ''abc123'') None None (new_SubtitleManager stale_store)) =
     Inr (empty_result
            \<lparr>r_error := Some ''Rate limited. Wait 5 minutes.'',
             r_wait_time := Has 300,
             r_usage := Some \<lparr>u_burst = ''5/5'', u_hourly = ''5/20'', u_daily = ''5/100''\<rparr>\<rparr>)"
  "subtitles_store (snd (fetchSubtitles denied_env (Some ''abc123'') None None
                           (new_SubtitleManager stale_store))) ''abc123'' = None"
  "memoryCache (snd (fetchSubtitles denied_env (Some ''abc123'') None None
                           (new_SubtitleManager stale_store))) = []"
  "subtitles_store (new_SubtitleManager stale_store) ''abc123'' = Some week_old_row"
  by (simp_all add: fetchSubtitles_def getFromIndexedDB_def initIndexedDB_def
      deleteFromIndexedDB_def checkCacheAndLimits_def getAuthToken_def record_call_def
      truthy_def response_ok_def Let_def Map_has_def Map_get_def denied_env_def
      scenario_env_def new_SubtitleManager_def denied_decision_def stale_store_def
      week_old_row_def cacheExpiry_def waitMin_def Math_ceil_div_def show_int_def
      show_nat.simps digit_char_def)

theorem fetchSubtitles_error_results_witness:
  "fetchSubtitles scenario_env None None None warm_manager =
     (Inr (empty_result\<lparr>r_error := Some ''No video ID provided'', r_cached := Some False\<rparr>),
      warm_manager) \<and>
   fetchSubtitles scenario_env (Some []) None None warm_manager =
     (Inr (empty_result\<lparr>r_error := Some ''No video ID provided'', r_cached := Some False\<rparr>),
      warm_manager) \<and>
   r_error (projr (fst (fetchSubtitles denied_env (Some ''abc123'') None None
                          (new_SubtitleManager stale_store)))) \<noteq> None \<and>
   memoryCache (snd (fetchSubtitles denied_env (Some ''abc123'') None None
                       (new_SubtitleManager stale_store))) =
     memoryCache (new_SubtitleManager stale_store) \<and>
   (\<exists>new. calls (snd (fetchSubtitles denied_env (Some ''abc123'') None None
                        (new_SubtitleManager stale_store))) =
           calls (new_SubtitleManager stale_store) @ new \<and>
      list_all (\<lambda>e. \<not> is_cache_write e) new)"
proof -
  let ?s = "new_SubtitleManager stale_store"
  let ?F = "fetchSubtitles denied_env (Some ''abc123'') None None ?s"
  let ?r = "empty_result
            \<lparr>r_error := Some ''Rate limited. Wait 5 minutes.'',
             r_wait_time := Has 300,
             r_usage := Some \<lparr>u_burst = ''5/5'', u_hourly = ''5/20'', u_daily = ''5/100''\<rparr>\<rparr>"
  have t1: "\<not> truthy None" and t2: "\<not> truthy (Some [])"
    by (simp_all add: truthy_def)
  from fetchSubtitles_error_results
         [where videoId = None and env = scenario_env and title = None and channel = None
            and s = warm_manager] t1
  have a: "fetchSubtitles scenario_env None None None warm_manager =
     (Inr (empty_result\<lparr>r_error := Some ''No video ID provided'', r_cached := Some False\<rparr>),
      warm_manager)"
    by blast
  from fetchSubtitles_error_results
         [where videoId = "Some []" and env = scenario_env and title = None and channel = None
            and s = warm_manager] t2
  have b: "fetchSubtitles scenario_env (Some []) None None warm_manager =
     (Inr (empty_result\<lparr>r_error := Some ''No video ID provided'', r_cached := Some False\<rparr>),
      warm_manager)"
    by blast
  have run: "?F = (Inr ?r, snd ?F)"
    using denied_stale_run(1) by (simp add: prod_eq_iff)
  have err: "r_error ?r \<noteq> None" by (simp add: empty_result_def)
  from fetchSubtitles_error_results
         [where videoId = "Some ''abc123''" and env = denied_env and title = None
            and channel = None and s = ?s and r = ?r and s' = "snd ?F"] run err
  have c: "memoryCache (snd ?F) = memoryCache ?s"
    and d: "\<exists>new. calls (snd ?F) = calls ?s @ new \<and>
         list_all (\<lambda>e. \<not> is_cache_write e) new"
    by blast+
  have e: "r_error (projr (fst ?F)) \<noteq> None"
    using denied_stale_run(1) err by simp
  from a b c d e show ?thesis by blast
qed

text \<open>
  C10 as stated fails: a call that ends in the rate-limit error has first read the
  persistent tier, and that read deleted the expired row of the same \<open>videoId\<close>.
\<close>

theorem quota_denial_deletes_stale_row:
  "r_error (projr (fst (fetchSubtitles denied_env (Some ''abc123'') None None
                          (new_SubtitleManager stale_store)))) =
     Some ''Rate limited. Wait 5 minutes.'' \<and>
   subtitles_store (new_SubtitleManager stale_store) ''abc123'' = Some week_old_row \<and>
   subtitles_store (snd (fetchSubtitles denied_env (Some ''abc123'') None None
                           (new_SubtitleManager stale_store))) ''abc123'' = None"
  using denied_stale_run by (simp add: empty_result_def)

subsection \<open>The orchestrator after a successful source fetch\<close>

lemma saveToIndexedDB_memoryCache:
  "memoryCache (snd (saveToIndexedDB env vid data s)) = memoryCache s"
  by (simp add: saveToIndexedDB_def initIndexedDB_def record_call_def Let_def
      split: idb_outcome.splits)

lemma saveToIndexedDB_initiated:
  assumes "db s" and "idb_put_outcome env \<noteq> Throws"
  shows "calls (snd (saveToIndexedDB env vid data s)) =
           calls s @ [IdbPut \<lparr>row_videoId = vid, row_captions = fr_captions data,
                              row_captionData = fr_captionData data,
                              row_cachedAt = Date_now env\<rparr>]"
  using assms
  by (simp add: saveToIndexedDB_def record_call_def Let_def split: idb_outcome.splits)

text \<open>
  What a call that ends in a successful source fetch writes: the \<open>captions\<close> and
  \<open>captionData\<close> properties of the fetched result go into the memory cache, and the
  two background calls are the last calls made.  The \<open>content\<close> property of the result
  is returned to the caller and written nowhere.
\<close>

lemma fetchSubtitles_write_through:
  assumes ne: "vid \<noteq> []" and miss: "Map_get vid (memoryCache s) = None"
    and G: "getFromIndexedDB env vid (s\<lparr>currentVideoId := Some vid\<rparr>) = (Inr None, s1)"
    and C: "checkCacheAndLimits env vid s1 = (d, s2)"
    and nc: "\<not> d_cached d" and al: "d_allowed d"
    and F: "fetchFromYtDlp env vid (s2\<lparr>misses := misses s2 + 1\<rparr>) = (Inr fetchResult, s4)"
    and ok: "fr_success fetchResult"
  shows "\<exists>src. fst (fetchSubtitles env (Some vid) title channel s) =
                  Inr (fresh_result fetchResult src) \<and>
           Map_get vid (memoryCache (snd (fetchSubtitles env (Some vid) title channel s))) =
             Some \<lparr>m_captions = fr_captions fetchResult,
                   m_captionData = fr_captionData fetchResult,
                   m_timestamp = Date_now env\<rparr> \<and>
           (\<exists>before. calls (snd (fetchSubtitles env (Some vid) title channel s)) =
              before @ [StoreInServerCache vid title channel fetchResult,
                        LogFetch vid title True src False])"
proof -
  let ?src = "case fr_captionData fetchResult of
                None \<Rightarrow> ''unknown''
              | Some cd \<Rightarrow> or_else (cd_source cd) ''unknown''"
  let ?s5 = "s4\<lparr>memoryCache := addToMemoryCache (Date_now env) vid (fr_captions fetchResult)
                                   (fr_captionData fetchResult) (memoryCache s4)\<rparr>"
  let ?s6 = "snd (saveToIndexedDB env vid fetchResult ?s5)"
  have run: "fetchSubtitles env (Some vid) title channel s =
      (Inr (fresh_result fetchResult ?src),
       record_call (LogFetch vid title True ?src False)
         (record_call (StoreInServerCache vid title channel fetchResult) ?s6))"
    using fetchSubtitles_remote_miss [OF ne miss G C nc, of title channel] al F ok by simp
  have a12: "appends (\<lambda>e. True) s1 s2"
    using checkCacheAndLimits_appends [of "\<lambda>e. True" s1 s1 env vid] C
    by (simp add: appends_refl)
  have a34: "appends (\<lambda>e. True) (s2\<lparr>misses := misses s2 + 1\<rparr>) s4"
    using fetchFromYtDlp_appends [of "\<lambda>e. True" "s2\<lparr>misses := misses s2 + 1\<rparr>"
        "s2\<lparr>misses := misses s2 + 1\<rparr>" env vid] F
    by (simp add: appends_refl)
  have m4: "memoryCache s4 = memoryCache s"
    using appends_frame(1) [OF a12] appends_frame(1) [OF a34] local_miss_frame(1) [OF G]
    by simp
  have put: "Map_get vid (addToMemoryCache (Date_now env) vid (fr_captions fetchResult)
                 (fr_captionData fetchResult) (memoryCache s4)) =
       Some \<lparr>m_captions = fr_captions fetchResult,
             m_captionData = fr_captionData fetchResult,
             m_timestamp = Date_now env\<rparr>"
    unfolding m4 using miss by (rule addToMemoryCache_get_absent)
  have mem: "Map_get vid (memoryCache (snd (fetchSubtitles env (Some vid) title channel s))) =
       Some \<lparr>m_captions = fr_captions fetchResult,
             m_captionData = fr_captionData fetchResult,
             m_timestamp = Date_now env\<rparr>"
    using put by (simp add: run record_call_def saveToIndexedDB_memoryCache)
  have last: "calls (snd (fetchSubtitles env (Some vid) title channel s)) =
      calls ?s6 @ [StoreInServerCache vid title channel fetchResult,
                   LogFetch vid title True ?src False]"
    by (simp add: run record_call_def)
  from run mem last show ?thesis by auto
qed

text \<open>
  C4 on the VTT path of the local server.  The call succeeds and hands the caller the
  fetched text in \<open>content\<close>; the memory cache entry and the IndexedDB row written by
  the same call hold \<open>captions: undefined\<close> and no content, and the next call for the
  same \<open>videoId\<close> is a memory hit that returns neither captions nor content.
\<close>

theorem vtt_fetch_is_not_cached:
  "fst (fetchSubtitles vtt_env (Some ''abc123'') None None (new_SubtitleManager Map.empty)) =
     Inr (empty_result
            \<lparr>r_success := Some True,
             r_captions := CaptionsUndefined,
             r_content := Some ''WEBVTT'',
             r_captionData := Some \<lparr>cd_language = Some ''en'', cd_type = Some ''vtt'',
                                     cd_source = Some ''local-ytdlp''\<rparr>,
             r_source := Some ''local-ytdlp'',
             r_cached := Some False\<rparr>) \<and>
   Map_get ''abc123''
     (memoryCache (snd (fetchSubtitles vtt_env (Some ''abc123'') None None
                          (new_SubtitleManager Map.empty)))) =
     Some \<lparr>m_captions = CaptionsUndefined,
           m_captionData = Some \<lparr>cd_language = Some ''en'', cd_type = Some ''vtt'',
                                  cd_source = Some ''local-ytdlp''\<rparr>,
           m_timestamp = 1700000000000\<rparr> \<and>
   subtitles_store (snd (fetchSubtitles vtt_env (Some ''abc123'') None None
                           (new_SubtitleManager Map.empty))) ''abc123'' =
     Some \<lparr>row_videoId = ''abc123'', row_captions = CaptionsUndefined,
           row_captionData = Some \<lparr>cd_language = Some ''en'', cd_type = Some ''vtt'',
                                    cd_source = Some ''local-ytdlp''\<rparr>,
           row_cachedAt = 1700000000000\<rparr> \<and>
   fst (fetchSubtitles vtt_env (Some ''abc123'') None None
          (snd (fetchSubtitles vtt_env (Some ''abc123'') None None
                  (new_SubtitleManager Map.empty)))) =
     Inr (empty_result
            \<lparr>r_captions := CaptionsUndefined,
             r_captionData := Some \<lparr>cd_language = Some ''en'', cd_type = Some ''vtt'',
                                     cd_source = Some ''local-ytdlp''\<rparr>,
             r_source := Some ''memory'',
             r_cached := Some True,
             r_age_seconds := Some 0,
             r_age_minutes := Some 0\<rparr>)"
proof -
  let ?s = "new_SubtitleManager Map.empty"
  let ?cd = "\<lparr>cd_language = Some ''en'', cd_type = Some ''vtt'',
              cd_source = Some ''local-ytdlp''\<rparr>"
  let ?e = "\<lparr>m_captions = CaptionsUndefined, m_captionData = Some ?cd,
             m_timestamp = 1700000000000\<rparr>"
  have first: "fst (fetchSubtitles vtt_env (Some ''abc123'') None None ?s) =
     Inr (empty_result
            \<lparr>r_success := Some True,
             r_captions := CaptionsUndefined,
             r_content := Some ''WEBVTT'',
             r_captionData := Some ?cd,
             r_source := Some ''local-ytdlp'',
             r_cached := Some False\<rparr>)"
    and mem: "memoryCache (snd (fetchSubtitles vtt_env (Some ''abc123'') None None ?s)) =
      [(''abc123'', ?e)]"
    and row: "subtitles_store (snd (fetchSubtitles vtt_env (Some ''abc123'') None None ?s))
        ''abc123'' =
      Some \<lparr>row_videoId = ''abc123'', row_captions = CaptionsUndefined,
            row_captionData = Some ?cd, row_cachedAt = 1700000000000\<rparr>"
    by (simp_all add: fetchSubtitles_def getFromIndexedDB_def initIndexedDB_def
        saveToIndexedDB_def checkCacheAndLimits_def getAuthToken_def fetchFromYtDlp_def
        fetch_vtt_def vtt_result_def failure_def fresh_result_def empty_result_def
        addToMemoryCache_def Map_size_def maxMemoryCacheSize_def record_call_def truthy_def
        or_else_def response_ok_def Let_def Map_has_def Map_get_def vtt_env_def
        scenario_env_def scenario_decision_def fail_open_def new_SubtitleManager_def)
  from mem have get: "Map_get ''abc123''
      (memoryCache (snd (fetchSubtitles vtt_env (Some ''abc123'') None None ?s))) = Some ?e"
    by (simp add: Map_get_def)
  have ne: "''abc123'' \<noteq> []" by simp
  have now: "Date_now vtt_env = 1700000000000"
    by (simp add: vtt_env_def scenario_env_def)
  from fetchSubtitles_memory_hit [OF ne get, of vtt_env None None]
  have second: "fst (fetchSubtitles vtt_env (Some ''abc123'') None None
          (snd (fetchSubtitles vtt_env (Some ''abc123'') None None ?s))) =
     Inr (empty_result
            \<lparr>r_captions := CaptionsUndefined,
             r_captionData := Some ?cd,
             r_source := Some ''memory'',
             r_cached := Some True,
             r_age_seconds := Some 0,
             r_age_minutes := Some 0\<rparr>)"
    by (simp add: now Math_round_div_def)
  from first get row second show ?thesis by blast
qed

subsection \<open>Rejections of the orchestrator\<close>

lemma fetchSubtitles_rejects_when_open_fails:
  assumes "vid \<noteq> []" and "Map_get vid (memoryCache s) = None"
    and "\<not> db s" and "\<not> idb_open_ok env"
  shows "fst (fetchSubtitles env (Some vid) title channel s) = Inl DOMException"
proof -
  have "getFromIndexedDB env vid (s\<lparr>currentVideoId := Some vid\<rparr>) =
          (Inl DOMException, record_call IdbOpen (s\<lparr>currentVideoId := Some vid\<rparr>))"
    using assms(3,4) by (intro getFromIndexedDB_rejects) simp_all
  from fetchSubtitles_disk_raise [OF assms(1,2) this, of title channel]
  show ?thesis by simp
qed

text \<open>
  C9 when the IndexedDB open request fails: \<open>getFromIndexedDB\<close> and \<open>saveToIndexedDB\<close>
  reject with the error of the open request, and so does \<open>fetchSubtitles\<close> for a
  \<open>videoId\<close> that is not in the memory cache.  \<open>fetchSubtitles\<close> also rejects when the
  remote check reports a hit without \<open>subtitles\<close> and when reading the preference
  throws.
\<close>

theorem open_failure_rejects:
  "fst (getFromIndexedDB broken_idb_env ''abc123'' (new_SubtitleManager Map.empty))
     = Inl DOMException \<and>
   fst (saveToIndexedDB broken_idb_env ''abc123'' failure (new_SubtitleManager Map.empty))
     = Inl DOMException \<and>
   fst (fetchSubtitles broken_idb_env (Some ''abc123'') None None (new_SubtitleManager Map.empty))
     = Inl DOMException \<and>
   fst (fetchSubtitles
          (scenario_env\<lparr>fetch_or_cache := Inr \<lparr>status = 200, body = Inr
             (fail_open\<lparr>d_cached := True\<rparr>)\<rparr>\<rparr>)
          (Some ''abc123'') None None (new_SubtitleManager Map.empty))
     = Inl TypeError \<and>
   fst (fetchSubtitles (scenario_env\<lparr>sync_subtitleServer := Inl StorageError\<rparr>)
          (Some ''abc123'') None None (new_SubtitleManager Map.empty))
     = Inl StorageError"
  by (simp add: fetchSubtitles_def getFromIndexedDB_def saveToIndexedDB_def initIndexedDB_def
      checkCacheAndLimits_def getAuthToken_def fetchFromYtDlp_def record_call_def truthy_def
      response_ok_def Let_def Map_has_def Map_get_def broken_idb_env_def scenario_env_def
      scenario_decision_def fail_open_def new_SubtitleManager_def)

end
